theory Spec2Isabelle
  imports Complex_Main
begin

section \<open>Antenna rule checker: the polygon-set engine of AntennaChecker.cc\<close>

text \<open>
  A shallow embedding of the polygon-set antenna checker
  (\<^verbatim>\<open>src/ant/src/AntennaChecker.cc\<close>): the rule store, the piecewise-linear table
  lookup, the per-record ratio computation, the cumulative ratios, the rule checks with
  the diode loop, and the via adjacency of the layered graph.

  Numbers of C++ type \<^verbatim>\<open>double\<close> and \<^verbatim>\<open>float\<close> are idealised as \<^typ>\<open>real\<close>: the
  theorems are about the formulas the code evaluates, not about rounding. Division is
  HOL's total division; every theorem whose statement depends on a quotient names the
  condition under which its denominator is not zero, or states the quotient as the code
  writes it.
\<close>

subsection \<open>Technology data read through the database interface\<close>

text \<open>\<^verbatim>\<open>dbTechLayerAntennaRule::pwl_pair\<close>: two parallel vectors.\<close>

record pwl_pair =
  indices :: "real list"
  ratios :: "real list"

record dbTechLayerAntennaRule =
  isAreaFactorDiffUseOnly :: bool
  getAreaFactor :: real
  isSideAreaFactorDiffUseOnly :: bool
  getSideAreaFactor :: real
  getAreaMinusDiffFactor :: real
  getGatePlusDiffFactor :: real
  getAreaDiffReduce :: pwl_pair
  getPAR :: real
  getPSR :: real
  getCAR :: real
  getCSR :: real
  getDiffPAR :: pwl_pair
  getDiffPSR :: pwl_pair
  getDiffCAR :: pwl_pair
  getDiffCSR :: pwl_pair

datatype dbTechLayerType = ROUTING | CUT | MASTERSLICE

text \<open>
  A technology layer. The code holds layers by pointer; here a layer is the record of
  what the checker reads from it, and \<open>getDefaultAntennaRule\<close> is \<open>None\<close> where
  \<^verbatim>\<open>hasDefaultAntennaRule()\<close> is false. The layer stack is a list, bottom layer first:
  \<^verbatim>\<open>getUpperLayer()\<close> is the next element, \<^verbatim>\<open>getLowerLayer()\<close> the previous one.
\<close>

record dbTechLayer =
  getConstName :: string
  getType :: dbTechLayerType
  getRoutingLevel :: nat
  getThickness :: nat
  getDefaultAntennaRule :: "dbTechLayerAntennaRule option"

fun getUpperLayer :: "dbTechLayer list \<Rightarrow> dbTechLayer \<Rightarrow> dbTechLayer option" where
  "getUpperLayer (a # b # ls) l = (if a = l then Some b else getUpperLayer (b # ls) l)"
| "getUpperLayer _ l = None"

fun getLowerLayer :: "dbTechLayer list \<Rightarrow> dbTechLayer \<Rightarrow> dbTechLayer option" where
  "getLowerLayer (a # b # ls) l = (if b = l then Some a else getLowerLayer (b # ls) l)"
| "getLowerLayer _ l = None"

text \<open>
  The layers visited by \<^verbatim>\<open>for (iter = min_layer_; iter; iter = iter->getUpperLayer())\<close>
  with \<^verbatim>\<open>min_layer_ = tech->findRoutingLayer(1)\<close>: the stack from the first routing
  layer upwards, and nothing when there is no such layer.
\<close>

definition layers_from_min :: "dbTechLayer list \<Rightarrow> dbTechLayer list" where
  "layers_from_min tech = dropWhile (\<lambda>l. getRoutingLevel l \<noteq> 1) tech"

datatype dbIoType = INPUT | OUTPUT | INOUT | FEEDTHRU

text \<open>
  A master terminal: its direction, the gate areas of its default antenna pin model
  (\<open>None\<close> where \<^verbatim>\<open>hasDefaultAntennaModel()\<close> is false) and its diffusion areas; the
  layer tagged to each area is not read by the checker.
\<close>

record dbMTerm =
  getIoType :: dbIoType
  getDefaultAntennaModel :: "real list option"
  getDiffArea :: "real list"

record dbITerm =
  getName :: string
  getMTerm :: dbMTerm

subsection \<open>Messages to the logger\<close>

datatype log_msg =
    WarnNoThickness string
  | WarnDiodeLimit string nat
  | ReportViaError string string string
  | ReportNet string
  | ReportPin string
  | ReportLayer string
  | ReportRatio string real real bool
  | ReportBlank

subsection \<open>Rule store\<close>

record AntennaModel =
  layer :: "dbTechLayer option"
  metal_factor :: real
  diff_metal_factor :: real
  cut_factor :: real
  diff_cut_factor :: real
  side_metal_factor :: real
  diff_side_metal_factor :: real
  minus_diff_factor :: real
  plus_diff_factor :: real
  diff_metal_reduce_factor :: real

text \<open>The body of the loop of \<^verbatim>\<open>initAntennaRules\<close> for one layer: the model it stores.\<close>

definition initAntennaRules_layer :: "dbTechLayer \<Rightarrow> AntennaModel" where
  "initAntennaRules_layer tech_layer =
     (let am0 = \<lparr>layer = Some tech_layer,
                  metal_factor = 1, diff_metal_factor = 1,
                  cut_factor = 1, diff_cut_factor = 1,
                  side_metal_factor = 1, diff_side_metal_factor = 1,
                  minus_diff_factor = 0, plus_diff_factor = 0,
                  diff_metal_reduce_factor = 1\<rparr>
      in case getDefaultAntennaRule tech_layer of
           None \<Rightarrow> am0
         | Some antenna_rule \<Rightarrow>
             (let am1 =
                    (if isAreaFactorDiffUseOnly antenna_rule then
                       am0\<lparr>diff_metal_factor := getAreaFactor antenna_rule,
                           diff_cut_factor := getAreaFactor antenna_rule\<rparr>
                     else
                       am0\<lparr>metal_factor := getAreaFactor antenna_rule,
                           diff_metal_factor := getAreaFactor antenna_rule,
                           cut_factor := getAreaFactor antenna_rule,
                           diff_cut_factor := getAreaFactor antenna_rule\<rparr>);
                  am2 =
                    (if isSideAreaFactorDiffUseOnly antenna_rule then
                       am1\<lparr>diff_side_metal_factor := getSideAreaFactor antenna_rule\<rparr>
                     else
                       am1\<lparr>side_metal_factor := getSideAreaFactor antenna_rule,
                           diff_side_metal_factor := getSideAreaFactor antenna_rule\<rparr>)
              in am2\<lparr>minus_diff_factor := getAreaMinusDiffFactor antenna_rule,
                     plus_diff_factor := getGatePlusDiffFactor antenna_rule\<rparr>))"

text \<open>The warning of the same loop body: a side-area rule on a routing layer of thickness 0.\<close>

definition initAntennaRules_warn :: "dbTechLayer \<Rightarrow> log_msg list" where
  "initAntennaRules_warn tech_layer =
     (case getDefaultAntennaRule tech_layer of
        None \<Rightarrow> []
      | Some antenna_rule \<Rightarrow>
          (if (getPSR antenna_rule \<noteq> 0 \<or> indices (getDiffPSR antenna_rule) \<noteq> [])
              \<and> getType tech_layer = ROUTING \<and> getThickness tech_layer = 0
           then [WarnNoThickness (getConstName tech_layer)] else []))"

type_synonym layer_info_map = "dbTechLayer \<rightharpoonup> AntennaModel"

fun initAntennaRules ::
  "dbTechLayer list \<Rightarrow> layer_info_map \<times> log_msg list \<Rightarrow> layer_info_map \<times> log_msg list" where
  "initAntennaRules [] (layer_info, lg) = (layer_info, lg)"
| "initAntennaRules (tech_layer # ls) (layer_info, lg) =
     initAntennaRules ls
       (layer_info(tech_layer \<mapsto> initAntennaRules_layer tech_layer),
        lg @ initAntennaRules_warn tech_layer)"

text \<open>
  \<^verbatim>\<open>layer_info_[tech_layer]\<close>: the stored model, or the value-initialised one that
  \<^verbatim>\<open>operator[]\<close> inserts for a layer that was never stored.
\<close>

definition layer_info_at :: "layer_info_map \<Rightarrow> dbTechLayer \<Rightarrow> AntennaModel" where
  "layer_info_at layer_info tech_layer =
     (case layer_info tech_layer of
        Some am \<Rightarrow> am
      | None \<Rightarrow>
          \<lparr>layer = None,
           metal_factor = 0, diff_metal_factor = 0,
           cut_factor = 0, diff_cut_factor = 0,
           side_metal_factor = 0, diff_side_metal_factor = 0,
           minus_diff_factor = 0, plus_diff_factor = 0,
           diff_metal_reduce_factor = 0\<rparr>)"

subsection \<open>Piecewise-linear tables\<close>

text \<open>
  The loop of \<^verbatim>\<open>getPwlFactor\<close>, with its variables as arguments. The vectors are read
  with \<^verbatim>\<open>operator[]\<close>; the database fills both with one entry per point, and the
  theorems on tables assume the two lengths equal.
\<close>

function pwl_loop :: "pwl_pair \<Rightarrow> real \<Rightarrow> nat \<Rightarrow> real \<Rightarrow> real \<Rightarrow> real \<Rightarrow> real" where
  "pwl_loop pwl_info ref_value i pwl_info_index1 pwl_info_ratio1 slope =
     (if i < length (indices pwl_info) then
        (let pwl_info_index2 = indices pwl_info ! i;
             pwl_info_ratio2 = ratios pwl_info ! i;
             slope2 = (pwl_info_ratio2 - pwl_info_ratio1)
                      / (pwl_info_index2 - pwl_info_index1)
         in if ref_value \<ge> pwl_info_index1 \<and> ref_value < pwl_info_index2
            then pwl_info_ratio1 + (ref_value - pwl_info_index1) * slope2
            else pwl_loop pwl_info ref_value (i + 1) pwl_info_index2 pwl_info_ratio2 slope2)
      else pwl_info_ratio1 + (ref_value - pwl_info_index1) * slope)"
  by pat_completeness auto
termination
  by (relation "measure (\<lambda>(p, r, i, a, b, c). length (indices p) - i)") auto

declare pwl_loop.simps [simp del]

definition getPwlFactor :: "pwl_pair \<Rightarrow> real \<Rightarrow> real \<Rightarrow> real" where
  "getPwlFactor pwl_info ref_value default_value =
     (if indices pwl_info \<noteq> [] then
        (if length (indices pwl_info) = 1 then ratios pwl_info ! 0
         else pwl_loop pwl_info ref_value 0 (indices pwl_info ! 0) (ratios pwl_info ! 0) 1)
      else default_value)"

text \<open>The line through points \<open>k\<close> and \<open>k + 1\<close> of a table, at \<open>x\<close>, from point \<open>k\<close>.\<close>

definition segment_value :: "pwl_pair \<Rightarrow> nat \<Rightarrow> real \<Rightarrow> real" where
  "segment_value p k x =
     ratios p ! k + (x - indices p ! k)
       * ((ratios p ! (k + 1) - ratios p ! k) / (indices p ! (k + 1) - indices p ! k))"

text \<open>The line through the last two points of a table, at \<open>x\<close>, from the last point.\<close>

definition last_segment_value :: "pwl_pair \<Rightarrow> real \<Rightarrow> real" where
  "last_segment_value p x =
     (let n = length (indices p) in
      ratios p ! (n - 1) + (x - indices p ! (n - 1))
       * ((ratios p ! (n - 1) - ratios p ! (n - 2))
          / (indices p ! (n - 1) - indices p ! (n - 2))))"

subsection \<open>Per-gate, per-layer records\<close>

text \<open>
  Modelled from the spec: \<^verbatim>\<open>InfoType\<close> is declared in the header AntennaChecker.hh, which
  is not among the sources. Its fields are the ones the code reads and writes; its
  constructor sets every number to 0 (the code accumulates into fresh records with
  \<^verbatim>\<open>+=\<close>); and its \<^verbatim>\<open>operator+=\<close> sums \<open>PAR\<close>, \<open>PSR\<close>, \<open>diff_PAR\<close>, \<open>diff_PSR\<close> (the
  running sums of the cumulative ratios), \<open>area\<close> and \<open>side_area\<close> (the merge of
  islands), and leaves \<open>iterm_gate_area\<close>, \<open>iterm_diff_area\<close>, the cumulative ratios and
  the pins as they are.
\<close>

record InfoType =
  PAR :: real
  PSR :: real
  diff_PAR :: real
  diff_PSR :: real
  area :: real
  side_area :: real
  iterm_gate_area :: real
  iterm_diff_area :: real
  CAR :: real
  CSR :: real
  diff_CAR :: real
  diff_CSR :: real
  iterms :: "dbITerm list"

text \<open>Modelled from the spec: the constructor of \<^verbatim>\<open>InfoType\<close>, every number 0, no pin.\<close>

definition InfoType_init :: InfoType where
  "InfoType_init =
     \<lparr>PAR = 0, PSR = 0, diff_PAR = 0, diff_PSR = 0, area = 0, side_area = 0,
      iterm_gate_area = 0, iterm_diff_area = 0, CAR = 0, CSR = 0, diff_CAR = 0,
      diff_CSR = 0, iterms = []\<rparr>"

text \<open>
  Modelled from the spec: \<^verbatim>\<open>InfoType::operator+=\<close>, the sum of the partial ratios, the
  area and the side area; the gate and diffusion areas are not added.
\<close>

definition InfoType_add :: "InfoType \<Rightarrow> InfoType \<Rightarrow> InfoType" where
  "InfoType_add x a =
     x\<lparr>PAR := PAR x + PAR a, PSR := PSR x + PSR a,
       diff_PAR := diff_PAR x + diff_PAR a, diff_PSR := diff_PSR x + diff_PSR a,
       area := area x + area a, side_area := side_area x + side_area a\<rparr>"

type_synonym layer_records = "dbTechLayer \<rightharpoonup> InfoType"
type_synonym info_map = "string \<Rightarrow> layer_records"

subsection \<open>Gates\<close>

definition gateArea :: "dbMTerm \<Rightarrow> real" where
  "gateArea mterm =
     (case getDefaultAntennaModel mterm of
        None \<Rightarrow> 0
      | Some gate_areas \<Rightarrow> fold (\<lambda>gate_area max_gate_area. max max_gate_area gate_area) gate_areas 0)"

definition diffArea :: "dbMTerm \<Rightarrow> real" where
  "diffArea mterm = fold (\<lambda>a max_diff_area. max max_diff_area a) (getDiffArea mterm) 0"

definition isValidGate :: "dbMTerm \<Rightarrow> bool" where
  "isValidGate mterm \<longleftrightarrow> getIoType mterm = INPUT \<and> gateArea mterm > 0"

subsection \<open>Partial ratios\<close>

definition calculateWirePar :: "layer_info_map \<Rightarrow> dbTechLayer \<Rightarrow> InfoType \<Rightarrow> InfoType" where
  "calculateWirePar layer_info tech_layer info =
     (let am = layer_info_at layer_info tech_layer;
          reduce = (case getDefaultAntennaRule tech_layer of
                      None \<Rightarrow> 1
                    | Some antenna_rule \<Rightarrow>
                        getPwlFactor (getAreaDiffReduce antenna_rule) (iterm_diff_area info) 1)
      in if iterm_diff_area info \<noteq> 0 then
           info\<lparr>PAR := (diff_metal_factor am * area info) / iterm_gate_area info,
                PSR := (diff_side_metal_factor am * side_area info) / iterm_gate_area info,
                diff_PAR :=
                  (diff_metal_factor am * area info * reduce
                     - minus_diff_factor am * iterm_diff_area info)
                  / (iterm_gate_area info + plus_diff_factor am * iterm_diff_area info),
                diff_PSR :=
                  (diff_side_metal_factor am * side_area info * reduce
                     - minus_diff_factor am * iterm_diff_area info)
                  / (iterm_gate_area info + plus_diff_factor am * iterm_diff_area info)\<rparr>
         else
           info\<lparr>PAR := (metal_factor am * area info) / iterm_gate_area info,
                PSR := (side_metal_factor am * side_area info) / iterm_gate_area info,
                diff_PAR := (metal_factor am * area info * reduce) / iterm_gate_area info,
                diff_PSR :=
                  (side_metal_factor am * side_area info * reduce) / iterm_gate_area info\<rparr>)"

definition calculateViaPar :: "layer_info_map \<Rightarrow> dbTechLayer \<Rightarrow> InfoType \<Rightarrow> InfoType" where
  "calculateViaPar layer_info tech_layer info =
     (let am = layer_info_at layer_info tech_layer;
          reduce = (case getDefaultAntennaRule tech_layer of
                      None \<Rightarrow> 1
                    | Some antenna_rule \<Rightarrow>
                        getPwlFactor (getAreaDiffReduce antenna_rule) (iterm_diff_area info) 1)
      in if iterm_diff_area info \<noteq> 0 then
           info\<lparr>PAR := (diff_cut_factor am * area info) / iterm_gate_area info,
                diff_PAR :=
                  (diff_cut_factor am * area info * reduce
                     - minus_diff_factor am * iterm_diff_area info)
                  / (iterm_gate_area info + plus_diff_factor am * iterm_diff_area info)\<rparr>
         else
           info\<lparr>PAR := (cut_factor am * area info) / iterm_gate_area info,
                diff_PAR := (cut_factor am * area info * reduce) / iterm_gate_area info\<rparr>)"

text \<open>
  \<^verbatim>\<open>calculatePAR\<close> updates every stored record in place, each from its own fields: as a
  map, the stored records under the per-layer function.
\<close>

definition calculatePAR :: "layer_info_map \<Rightarrow> info_map \<Rightarrow> info_map" where
  "calculatePAR layer_info info =
     (\<lambda>gate tech_layer.
        (case info gate tech_layer of
           None \<Rightarrow> None
         | Some gate_info \<Rightarrow>
             Some (if getRoutingLevel tech_layer = 0
                   then calculateViaPar layer_info tech_layer gate_info
                   else calculateWirePar layer_info tech_layer gate_info)))"

text \<open>
  \<^verbatim>\<open>calculateCAR\<close> for one gate: the walk over the layers from \<^verbatim>\<open>min_layer_\<close> upwards,
  with the two running sums.
\<close>

fun calculateCAR_loop ::
  "dbTechLayer list \<Rightarrow> InfoType \<Rightarrow> InfoType \<Rightarrow> layer_records \<Rightarrow> layer_records" where
  "calculateCAR_loop [] sumWire sumVia recs = recs"
| "calculateCAR_loop (iter_layer # upper) sumWire sumVia recs =
     (case recs iter_layer of
        None \<Rightarrow> calculateCAR_loop upper sumWire sumVia recs
      | Some r \<Rightarrow>
          (if getRoutingLevel iter_layer = 0 then
             (let sumVia2 = InfoType_add sumVia r
              in calculateCAR_loop upper sumWire sumVia2
                   (recs(iter_layer \<mapsto>
                      r\<lparr>CAR := CAR r + PAR sumVia2, CSR := CSR r + PSR sumVia2,
                        diff_CAR := diff_CAR r + diff_PAR sumVia2,
                        diff_CSR := diff_CSR r + diff_PSR sumVia2\<rparr>)))
           else
             (let sumWire2 = InfoType_add sumWire r
              in calculateCAR_loop upper sumWire2 sumVia
                   (recs(iter_layer \<mapsto>
                      r\<lparr>CAR := CAR r + PAR sumWire2, CSR := CSR r + PSR sumWire2,
                        diff_CAR := diff_CAR r + diff_PAR sumWire2,
                        diff_CSR := diff_CSR r + diff_PSR sumWire2\<rparr>)))))"

definition calculateCAR :: "dbTechLayer list \<Rightarrow> info_map \<Rightarrow> info_map" where
  "calculateCAR tech info =
     (\<lambda>gate. calculateCAR_loop (layers_from_min tech) InfoType_init InfoType_init (info gate))"

subsection \<open>The layered graph\<close>

text \<open>
  A pin of the net: an instance terminal or a block terminal, with its name (the
  equality and the hash of \<^verbatim>\<open>PinType\<close> are on the name).
\<close>

datatype PinType = ITermPin string dbITerm | BTermPin string

text \<open>
  An island. Its polygon is of a type \<open>'pol\<close> left open: the checker reads a polygon only
  through the polygon library (\<^verbatim>\<open>gtl::area\<close>, \<^verbatim>\<open>gtl::perimeter\<close>, the union of a
  polygon into a polygon set), and these are arguments of the functions below. The set
  of gates is a list in the order the code iterates it.
\<close>

record 'pol GraphNode =
  node_id :: nat
  isVia :: bool
  pol :: 'pol
  low_adj :: "nat list"
  gates :: "PinType list"

type_synonym 'pol node_map = "dbTechLayer \<Rightarrow> 'pol GraphNode list"

text \<open>
  Modelled from the spec: \<^verbatim>\<open>dbuToMicrons\<close> is declared in the header, which is not among
  the sources; it converts database distance units to micrometers, here by the number
  of database units per micrometer.
\<close>

definition dbuToMicrons :: "real \<Rightarrow> real \<Rightarrow> real" where
  "dbuToMicrons dbu_per_micron v = v / dbu_per_micron"

text \<open>The body of \<^verbatim>\<open>calculateAreas\<close> for one island of one layer.\<close>

definition node_info_gates :: "PinType list \<Rightarrow> InfoType \<Rightarrow> InfoType" where
  "node_info_gates gs info0 =
     fold (\<lambda>gate info.
             (case gate of
                BTermPin n \<Rightarrow> info
              | ITermPin n iterm \<Rightarrow>
                  info\<lparr>iterms := iterms info @ [iterm],
                       iterm_gate_area := iterm_gate_area info + gateArea (getMTerm iterm),
                       iterm_diff_area := iterm_diff_area info + diffArea (getMTerm iterm)\<rparr>))
          gs info0"

definition node_info ::
  "('pol \<Rightarrow> real) \<Rightarrow> ('pol \<Rightarrow> real) \<Rightarrow> real \<Rightarrow> dbTechLayer \<Rightarrow> 'pol GraphNode \<Rightarrow> InfoType" where
  "node_info gtl_area gtl_perimeter dbu tech_layer node =
     (let info1 = node_info_gates (gates node)
                    (InfoType_init\<lparr>area := dbuToMicrons dbu (dbuToMicrons dbu (gtl_area (pol node)))\<rparr>)
      in if getRoutingLevel tech_layer \<noteq> 0 then
           info1\<lparr>side_area :=
                   dbuToMicrons dbu
                     (gtl_perimeter (pol node)
                      * dbuToMicrons dbu (real (getThickness tech_layer)))\<rparr>
         else info1)"

definition store_info :: "dbTechLayer \<Rightarrow> InfoType \<Rightarrow> PinType \<Rightarrow> info_map \<Rightarrow> info_map" where
  "store_info tech_layer info gate infos =
     (case gate of
        BTermPin n \<Rightarrow> infos
      | ITermPin n iterm \<Rightarrow>
          (if \<not> isValidGate (getMTerm iterm) then infos
           else (case infos n tech_layer of
                   Some old \<Rightarrow> infos(n := (infos n)(tech_layer \<mapsto> InfoType_add old info))
                 | None \<Rightarrow> infos(n := (infos n)(tech_layer \<mapsto> info)))))"

definition is_iterm :: "PinType \<Rightarrow> bool" where
  "is_iterm gate = (case gate of ITermPin n iterm \<Rightarrow> True | BTermPin n \<Rightarrow> False)"

definition calculateAreas_node ::
  "('pol \<Rightarrow> real) \<Rightarrow> ('pol \<Rightarrow> real) \<Rightarrow> real \<Rightarrow> dbTechLayer \<Rightarrow> 'pol GraphNode
     \<Rightarrow> info_map \<Rightarrow> info_map" where
  "calculateAreas_node gtl_area gtl_perimeter dbu tech_layer node infos =
     (let gates_count = length (filter is_iterm (gates node))
      in if gates_count = 0 then infos
         else fold (store_info tech_layer (node_info gtl_area gtl_perimeter dbu tech_layer node))
                (gates node) infos)"

text \<open>
  \<^verbatim>\<open>calculateAreas\<close>: every layer of the node map (\<open>node_layers\<close>, its keys in the order
  the map is iterated), every island of the layer.
\<close>

definition calculateAreas ::
  "('pol \<Rightarrow> real) \<Rightarrow> ('pol \<Rightarrow> real) \<Rightarrow> real \<Rightarrow> dbTechLayer list \<Rightarrow> 'pol node_map
     \<Rightarrow> info_map \<Rightarrow> info_map" where
  "calculateAreas gtl_area gtl_perimeter dbu node_layers node_by_layer_map infos =
     fold (\<lambda>tech_layer acc.
             fold (calculateAreas_node gtl_area gtl_perimeter dbu tech_layer)
               (node_by_layer_map tech_layer) acc)
          node_layers infos"

subsection \<open>Rule checks\<close>

text \<open>
  Each check returns what the code returns, and the lines it writes to the logger (the
  report file, when open, receives the same lines). The rule is the layer's default
  antenna rule, which the caller has tested to exist; \<open>ratio_margin\<close> is the member
  \<^verbatim>\<open>ratio_margin_\<close>. A report line keeps its label, the ratio, the required ratio and
  the violation flag.
\<close>

definition checkPAR ::
  "real \<Rightarrow> dbTechLayerAntennaRule \<Rightarrow> InfoType \<Rightarrow> bool \<Rightarrow> bool \<Rightarrow> (bool \<times> bool) \<times> log_msg list" where
  "checkPAR ratio_margin antenna_rule info verbose report =
     (let PAR_ratio = getPAR antenna_rule * (1 - ratio_margin / 100);
          diff_PAR_PWL_ratio =
            getPwlFactor (getDiffPAR antenna_rule) (iterm_diff_area info) 0
              * (1 - ratio_margin / 100)
      in if PAR_ratio \<noteq> 0 then
           (let par_violation = PAR info > PAR_ratio
            in ((par_violation, False),
                (if (par_violation \<and> report) \<or> verbose
                 then [ReportRatio ''Gate area'' (PAR info) PAR_ratio par_violation] else [])))
         else
           (let checked = (diff_PAR_PWL_ratio \<noteq> 0);
                diff_par_violation =
                  (diff_PAR_PWL_ratio \<noteq> 0 \<and> diff_PAR info > diff_PAR_PWL_ratio)
            in ((diff_par_violation, checked),
                (if (diff_par_violation \<and> report) \<or> verbose
                 then [ReportRatio ''Gate area'' (diff_PAR info) diff_PAR_PWL_ratio
                         diff_par_violation]
                 else []))))"

definition checkPSR ::
  "real \<Rightarrow> dbTechLayerAntennaRule \<Rightarrow> InfoType \<Rightarrow> bool \<Rightarrow> bool \<Rightarrow> (bool \<times> bool) \<times> log_msg list" where
  "checkPSR ratio_margin antenna_rule info verbose report =
     (let PSR_ratio = getPSR antenna_rule * (1 - ratio_margin / 100);
          diff_PSR_PWL_ratio =
            getPwlFactor (getDiffPSR antenna_rule) (iterm_diff_area info) 0
              * (1 - ratio_margin / 100)
      in if PSR_ratio \<noteq> 0 then
           (let psr_violation = PSR info > PSR_ratio
            in ((psr_violation, False),
                (if (psr_violation \<and> report) \<or> verbose
                 then [ReportRatio ''Side area'' (PSR info) PSR_ratio psr_violation] else [])))
         else
           (let checked = (diff_PSR_PWL_ratio \<noteq> 0);
                diff_psr_violation =
                  (diff_PSR_PWL_ratio \<noteq> 0 \<and> diff_PSR info > diff_PSR_PWL_ratio)
            in ((diff_psr_violation, checked),
                (if (diff_psr_violation \<and> report) \<or> verbose
                 then [ReportRatio ''Side area'' (diff_PSR info) diff_PSR_PWL_ratio
                         diff_psr_violation]
                 else []))))"

definition checkCAR ::
  "dbTechLayerAntennaRule \<Rightarrow> InfoType \<Rightarrow> bool \<Rightarrow> bool \<Rightarrow> bool \<times> log_msg list" where
  "checkCAR antenna_rule info verbose report =
     (let CAR_ratio = getCAR antenna_rule;
          diff_CAR_PWL_ratio = getPwlFactor (getDiffCAR antenna_rule) (iterm_diff_area info) 0
      in if CAR_ratio \<noteq> 0 then
           (let car_violation = CAR info > CAR_ratio
            in (car_violation,
                (if (car_violation \<and> report) \<or> verbose
                 then [ReportRatio ''Cumulative area'' (CAR info) CAR_ratio car_violation]
                 else [])))
         else
           (let diff_car_violation =
                  (diff_CAR_PWL_ratio \<noteq> 0 \<and> diff_CAR info > diff_CAR_PWL_ratio)
            in (diff_car_violation,
                (if (diff_car_violation \<and> report) \<or> verbose
                 then [ReportRatio ''Cumulative area'' (diff_CAR info) diff_CAR_PWL_ratio
                         diff_car_violation]
                 else []))))"

definition checkCSR ::
  "dbTechLayerAntennaRule \<Rightarrow> InfoType \<Rightarrow> bool \<Rightarrow> bool \<Rightarrow> bool \<times> log_msg list" where
  "checkCSR antenna_rule info verbose report =
     (let CSR_ratio = getCSR antenna_rule;
          diff_CSR_PWL_ratio = getPwlFactor (getDiffCSR antenna_rule) (iterm_diff_area info) 0
      in if CSR_ratio \<noteq> 0 then
           (let csr_violation = CSR info > CSR_ratio
            in (csr_violation,
                (if (csr_violation \<and> report) \<or> verbose
                 then [ReportRatio ''Cumulative side area'' (CSR info) CSR_ratio csr_violation]
                 else [])))
         else
           (let diff_csr_violation =
                  (diff_CSR_PWL_ratio \<noteq> 0 \<and> diff_CSR info > diff_CSR_PWL_ratio)
            in (diff_csr_violation,
                (if (diff_csr_violation \<and> report) \<or> verbose
                 then [ReportRatio ''Cumulative side area'' (diff_CSR info) diff_CSR_PWL_ratio
                         diff_csr_violation]
                 else []))))"

text \<open>
  The first pass of \<^verbatim>\<open>checkInfo\<close> over one record with a rule: all four checks on a metal
  layer, \<open>PAR\<close> and \<open>CAR\<close> on a via layer, silently.
\<close>

definition node_has_violation ::
  "real \<Rightarrow> dbTechLayer \<Rightarrow> dbTechLayerAntennaRule \<Rightarrow> InfoType \<Rightarrow> bool" where
  "node_has_violation ratio_margin tech_layer antenna_rule info =
     (if getRoutingLevel tech_layer \<noteq> 0 then
        fst (fst (checkPAR ratio_margin antenna_rule info False False))
        \<or> fst (fst (checkPSR ratio_margin antenna_rule info False False))
        \<or> fst (checkCAR antenna_rule info False False)
        \<or> fst (checkCSR antenna_rule info False False)
      else
        fst (fst (checkPAR ratio_margin antenna_rule info False False))
        \<or> fst (checkCAR antenna_rule info False False))"

subsection \<open>The diode loop\<close>

text \<open>
  Modelled from the spec: \<^verbatim>\<open>Violation\<close> and the constant \<^verbatim>\<open>max_diode_count_per_gate\<close>
  are declared in the header, which is not among the sources. A violation is
  \<open>{routingLevel, gates[], diodeCountPerGate}\<close>; the cap is an argument.
\<close>

record Violation =
  routing_level :: nat
  violation_gates :: "dbITerm list"
  diode_count_per_gate :: nat

text \<open>
  The \<^verbatim>\<open>while\<close> loop of the repair estimate, with its variables as arguments: the two
  violation flags, the copy of the record, the count, the logger. \<open>k\<close> is
  \<^verbatim>\<open>gates.size()\<close>.
\<close>

function diode_loop ::
  "layer_info_map \<Rightarrow> real \<Rightarrow> nat \<Rightarrow> string \<Rightarrow> dbTechLayer \<Rightarrow> dbTechLayerAntennaRule \<Rightarrow> real
     \<Rightarrow> nat \<Rightarrow> bool \<Rightarrow> bool \<Rightarrow> InfoType \<Rightarrow> nat \<Rightarrow> log_msg list
     \<Rightarrow> InfoType \<times> nat \<times> log_msg list" where
  "diode_loop layer_info ratio_margin max_diode_count_per_gate net_name violation_layer
     antenna_rule diode_diff_area k par_violation psr_violation violation_info
     diode_count lg =
     (if par_violation \<or> psr_violation then
        (let info1 = violation_info\<lparr>iterm_diff_area :=
                       iterm_diff_area violation_info + diode_diff_area * real k\<rparr>;
             diode_count1 = diode_count + 1;
             info2 = calculateWirePar layer_info violation_layer info1;
             par_violation1 = fst (fst (checkPAR ratio_margin antenna_rule info2 False False));
             psr_violation1 = fst (fst (checkPSR ratio_margin antenna_rule info2 False False))
         in if diode_count1 > max_diode_count_per_gate then
              (info2, diode_count1, lg @ [WarnDiodeLimit net_name max_diode_count_per_gate])
            else
              diode_loop layer_info ratio_margin max_diode_count_per_gate net_name
                violation_layer antenna_rule diode_diff_area k par_violation1 psr_violation1
                info2 diode_count1 lg)
      else (violation_info, diode_count, lg))"
  by pat_completeness auto
termination
  by (relation "measure (\<lambda>(li, rm, mx, nn, vl, ar, dda, k, p, q, vi, c, lg). mx + 1 - c)")
     auto

declare diode_loop.simps [simp del]

subsection \<open>checkInfo\<close>

text \<open>
  The variables of \<^verbatim>\<open>checkInfo\<close> that outlive one record: the member
  \<^verbatim>\<open>antenna_violations_\<close>, the local \<^verbatim>\<open>pin_added\<close>, the logger, the report flags and the
  counters.
\<close>

record check_state =
  antenna_violations :: "Violation list"
  pin_added :: "dbTechLayer \<Rightarrow> string set"
  logger :: "log_msg list"
  net_is_reported :: bool
  pin_is_reported :: bool
  pin_has_violation :: bool
  pin_violation_count :: nat

text \<open>The report block of one record: the headers not yet written, then the checks again.\<close>

definition report_record ::
  "real \<Rightarrow> string \<Rightarrow> bool \<Rightarrow> string \<Rightarrow> dbTechLayer \<Rightarrow> dbTechLayerAntennaRule \<Rightarrow> InfoType
     \<Rightarrow> check_state \<Rightarrow> check_state" where
  "report_record ratio_margin net_name verbose gate_name tech_layer antenna_rule info st =
     (let lg1 = logger st @ (if \<not> net_is_reported st then [ReportNet net_name] else []);
          lg2 = lg1 @ (if \<not> pin_is_reported st then [ReportPin gate_name] else []);
          lg3 = lg2 @ [ReportLayer (getConstName tech_layer)];
          lg4 = (if getRoutingLevel tech_layer \<noteq> 0 then
                   lg3 @ snd (checkPAR ratio_margin antenna_rule info verbose True)
                       @ snd (checkPSR ratio_margin antenna_rule info verbose True)
                       @ snd (checkCAR antenna_rule info verbose True)
                       @ snd (checkCSR antenna_rule info verbose True)
                 else
                   lg3 @ snd (checkPAR ratio_margin antenna_rule info verbose True)
                       @ snd (checkCAR antenna_rule info verbose True))
      in st\<lparr>logger := lg4, net_is_reported := True, pin_is_reported := True\<rparr>)"

text \<open>The repair estimate of one violating record: the diode loop and what it stores.\<close>

definition repair_record ::
  "layer_info_map \<Rightarrow> real \<Rightarrow> nat \<Rightarrow> string \<Rightarrow> dbMTerm \<Rightarrow> dbTechLayer
     \<Rightarrow> dbTechLayerAntennaRule \<Rightarrow> InfoType \<Rightarrow> check_state \<Rightarrow> check_state" where
  "repair_record layer_info ratio_margin max_diode_count_per_gate net_name diode_mterm
     tech_layer antenna_rule info st =
     (let diode_diff_area = diffArea diode_mterm;
          gs = iterms info;
          par_violation = fst (fst (checkPAR ratio_margin antenna_rule info False False));
          psr_violation = fst (fst (checkPSR ratio_margin antenna_rule info False False));
          res = diode_loop layer_info ratio_margin max_diode_count_per_gate net_name tech_layer
                  antenna_rule diode_diff_area (length gs) par_violation psr_violation info 0
                  (logger st);
          diode_count = fst (snd res);
          st1 = st\<lparr>logger := snd (snd res),
                   pin_added := (pin_added st)
                     (tech_layer := pin_added st tech_layer \<union> set (map getName gs))\<rparr>
      in if diode_count > 0 then
           st1\<lparr>antenna_violations := antenna_violations st1 @
                  [\<lparr>routing_level = getRoutingLevel tech_layer, violation_gates = gs,
                    diode_count_per_gate = diode_count\<rparr>]\<rparr>
         else st1)"

text \<open>The body of the inner loop of \<^verbatim>\<open>checkInfo\<close>: one (gate, layer) record.\<close>

definition checkInfo_layer ::
  "layer_info_map \<Rightarrow> real \<Rightarrow> nat \<Rightarrow> string \<Rightarrow> bool \<Rightarrow> bool \<Rightarrow> dbMTerm option \<Rightarrow> string
     \<Rightarrow> dbTechLayer \<Rightarrow> InfoType \<Rightarrow> check_state \<Rightarrow> check_state" where
  "checkInfo_layer layer_info ratio_margin max_diode_count_per_gate net_name verbose report
     diode_mterm gate_name tech_layer info st =
     (case getDefaultAntennaRule tech_layer of
        None \<Rightarrow> st
      | Some antenna_rule \<Rightarrow>
          (let violated = node_has_violation ratio_margin tech_layer antenna_rule info;
               st1 = (if (violated \<or> report) \<and> diode_mterm = None
                      then report_record ratio_margin net_name verbose gate_name tech_layer
                             antenna_rule info st
                      else st)
           in if violated then
                (let st2 = st1\<lparr>pin_has_violation := True\<rparr>
                 in case diode_mterm of
                      None \<Rightarrow> st2
                    | Some dm \<Rightarrow>
                        (if getRoutingLevel tech_layer \<noteq> 0
                            \<and> gate_name \<notin> pin_added st2 tech_layer
                         then repair_record layer_info ratio_margin max_diode_count_per_gate
                                net_name dm tech_layer antenna_rule info st2
                         else st2))
              else st1))"

text \<open>
  The body of the outer loop: one gate, over the layers of its records. \<open>layer_order\<close>
  lists the layers in the order the inner map is iterated; a layer without a record of
  the gate is not in the map and is passed over.
\<close>

definition checkInfo_gate ::
  "layer_info_map \<Rightarrow> real \<Rightarrow> nat \<Rightarrow> string \<Rightarrow> bool \<Rightarrow> bool \<Rightarrow> dbMTerm option
     \<Rightarrow> dbTechLayer list \<Rightarrow> info_map \<Rightarrow> string \<Rightarrow> check_state \<Rightarrow> check_state" where
  "checkInfo_gate layer_info ratio_margin max_diode_count_per_gate net_name verbose report
     diode_mterm layer_order infos gate_name st =
     (let st0 = st\<lparr>pin_has_violation := False, pin_is_reported := False\<rparr>;
          st1 = fold (\<lambda>tech_layer s.
                        (case infos gate_name tech_layer of
                           None \<Rightarrow> s
                         | Some info \<Rightarrow>
                             checkInfo_layer layer_info ratio_margin max_diode_count_per_gate
                               net_name verbose report diode_mterm gate_name tech_layer info s))
                  layer_order st0;
          st2 = (if pin_has_violation st1
                 then st1\<lparr>pin_violation_count := pin_violation_count st1 + 1\<rparr> else st1)
      in if pin_is_reported st2 then st2\<lparr>logger := logger st2 @ [ReportBlank]\<rparr> else st2)"

text \<open>
  \<^verbatim>\<open>checkInfo\<close>: \<open>gate_order\<close> lists the keys of the record map in the order it is
  iterated. The result is the count the code returns, with the violations and the
  logger it leaves behind; the record map is read only.
\<close>

definition checkInfo ::
  "layer_info_map \<Rightarrow> nat \<Rightarrow> string \<Rightarrow> bool \<Rightarrow> bool \<Rightarrow> dbMTerm option \<Rightarrow> real
     \<Rightarrow> string list \<Rightarrow> dbTechLayer list \<Rightarrow> info_map \<Rightarrow> Violation list \<Rightarrow> log_msg list
     \<Rightarrow> check_state" where
  "checkInfo layer_info max_diode_count_per_gate net_name verbose report diode_mterm
     ratio_margin gate_order layer_order infos violations lg =
     (let st0 = \<lparr>antenna_violations = violations, pin_added = (\<lambda>l. {}), logger = lg,
                 net_is_reported = False, pin_is_reported = False,
                 pin_has_violation = False, pin_violation_count = 0\<rparr>;
          st1 = fold (checkInfo_gate layer_info ratio_margin max_diode_count_per_gate net_name
                        verbose report diode_mterm layer_order infos)
                  gate_order st0
      in if net_is_reported st1 then st1\<lparr>logger := logger st1 @ [ReportBlank]\<rparr> else st1)"

subsection \<open>checkNet\<close>

text \<open>
  The state of the checker around one net: the record map \<^verbatim>\<open>info_\<close>, the violations,
  the logger, and the two counters the caller passes by reference.
\<close>

record 'pol net_data =
  net_name_of :: string
  has_wire :: bool
  node_layers_of :: "dbTechLayer list"
  nodes_of :: "'pol node_map"

record checker_state =
  stored_info :: info_map
  stored_violations :: "Violation list"
  stored_log :: "log_msg list"
  net_violation_count :: nat
  pin_violation_total :: nat

text \<open>
  \<^verbatim>\<open>checkNet\<close> of the polygon-set engine. \<^verbatim>\<open>buildLayerMaps\<close> clears the record map and
  builds the layered graph of the net with its gates from the geometry; the graph it
  leaves (\<open>nodes_of\<close>, with the keys \<open>node_layers_of\<close>) is part of the net here.
  \<open>gate_order\<close> and \<open>layer_order\<close> are the iteration orders of the record map.
\<close>

definition checkNet ::
  "('pol \<Rightarrow> real) \<Rightarrow> ('pol \<Rightarrow> real) \<Rightarrow> real \<Rightarrow> dbTechLayer list \<Rightarrow> layer_info_map \<Rightarrow> nat
     \<Rightarrow> string list \<Rightarrow> dbTechLayer list
     \<Rightarrow> 'pol net_data \<Rightarrow> bool \<Rightarrow> bool \<Rightarrow> dbMTerm option \<Rightarrow> real
     \<Rightarrow> checker_state \<Rightarrow> checker_state" where
  "checkNet gtl_area gtl_perimeter dbu tech layer_info max_diode_count_per_gate
     gate_order layer_order db_net verbose report diode_mterm ratio_margin cs =
     (if has_wire db_net then
        (let infos = calculateCAR tech
                       (calculatePAR layer_info
                          (calculateAreas gtl_area gtl_perimeter dbu (node_layers_of db_net)
                             (nodes_of db_net) (\<lambda>g. Map.empty)));
             st = checkInfo layer_info max_diode_count_per_gate (net_name_of db_net) verbose
                    report diode_mterm ratio_margin gate_order layer_order infos
                    (stored_violations cs) (stored_log cs);
             pin_violations = pin_violation_count st;
             cs1 = cs\<lparr>stored_info := infos, stored_violations := antenna_violations st,
                      stored_log := logger st\<rparr>
         in if pin_violations > 0 then
              cs1\<lparr>net_violation_count := net_violation_count cs1 + 1,
                  pin_violation_total := pin_violation_total cs1 + pin_violations\<rparr>
            else cs1)
      else cs)"

subsection \<open>Via adjacency of the layered graph\<close>

text \<open>
  \<^verbatim>\<open>findNodesWithIntersection\<close>: the polygon is put into a polygon set, every node's
  polygon is added in turn, and a node is reported when the set did not grow. The
  union of a polygon into a polygon set (\<^verbatim>\<open>objs += p\<close> of the polygon library) is
  the argument \<open>gtl_add\<close>.
\<close>

fun findNodes_loop ::
  "('pol list \<Rightarrow> 'pol \<Rightarrow> 'pol list) \<Rightarrow> 'pol GraphNode list \<Rightarrow> 'pol list \<Rightarrow> nat \<Rightarrow> nat
     \<Rightarrow> nat list \<Rightarrow> nat list" where
  "findNodes_loop gtl_add [] objs last_size index ids = ids"
| "findNodes_loop gtl_add (node # rest) objs last_size index ids =
     (let objs2 = gtl_add objs (pol node);
          ids2 = (if last_size = length objs2 then ids @ [index] else ids)
      in findNodes_loop gtl_add rest objs2 (length objs2) (index + 1) ids2)"

definition findNodesWithIntersection ::
  "('pol list \<Rightarrow> 'pol \<Rightarrow> 'pol list) \<Rightarrow> 'pol GraphNode list \<Rightarrow> 'pol \<Rightarrow> nat list" where
  "findNodesWithIntersection gtl_add graph_nodes p =
     findNodes_loop gtl_add graph_nodes (gtl_add [] p) 1 0 []"

text \<open>The first loop of \<^verbatim>\<open>buildLayerMaps\<close>: one node per polygon, numbered in order.\<close>

definition buildLayerMaps_nodes ::
  "(dbTechLayer \<times> 'pol list) list \<Rightarrow> 'pol node_map \<times> nat" where
  "buildLayerMaps_nodes set_by_layer =
     fold (\<lambda>(tech_layer, pols) acc.
             fold (\<lambda>pol_it (nbl, node_count).
                     (nbl(tech_layer := nbl tech_layer @
                        [\<lparr>node_id = node_count, isVia = (getRoutingLevel tech_layer = 0),
                          pol = pol_it, low_adj = [], gates = []\<rparr>]),
                      node_count + 1))
               pols acc)
          set_by_layer (\<lambda>l. [], 0)"

definition nodes_at :: "'pol node_map \<Rightarrow> dbTechLayer option \<Rightarrow> 'pol GraphNode list" where
  "nodes_at nbl l = (case l of None \<Rightarrow> [] | Some tech_layer \<Rightarrow> nbl tech_layer)"

definition layer_name_of :: "dbTechLayer option \<Rightarrow> string" where
  "layer_name_of l = (case l of None \<Rightarrow> [] | Some tech_layer \<Rightarrow> getConstName tech_layer)"

definition push_low_adj :: "nat \<Rightarrow> nat \<Rightarrow> 'pol GraphNode list \<Rightarrow> 'pol GraphNode list" where
  "push_low_adj index v nodes =
     nodes[index := (nodes ! index)\<lparr>low_adj := low_adj (nodes ! index) @ [v]\<rparr>]"

definition push_low_adj_at ::
  "dbTechLayer option \<Rightarrow> nat \<Rightarrow> nat \<Rightarrow> 'pol node_map \<Rightarrow> 'pol node_map" where
  "push_low_adj_at l index v nbl =
     (case l of None \<Rightarrow> nbl
      | Some tech_layer \<Rightarrow> nbl(tech_layer := push_low_adj index v (nbl tech_layer)))"

text \<open>The body of the second loop of \<^verbatim>\<open>buildLayerMaps\<close>: one via island.\<close>

definition connect_via ::
  "('pol list \<Rightarrow> 'pol \<Rightarrow> 'pol list) \<Rightarrow> dbTechLayer list \<Rightarrow> string \<Rightarrow> dbTechLayer \<Rightarrow> nat \<Rightarrow> 'pol
     \<Rightarrow> 'pol node_map \<times> log_msg list \<Rightarrow> 'pol node_map \<times> log_msg list" where
  "connect_via gtl_add tech net_name via_layer via_index via_it acc =
     (let nbl = fst acc; lg = snd acc;
          lower_index = findNodesWithIntersection gtl_add
                          (nodes_at nbl (getLowerLayer tech via_layer)) via_it;
          upper_index = findNodesWithIntersection gtl_add
                          (nodes_at nbl (getUpperLayer tech via_layer)) via_it;
          acc1 = (if length upper_index \<le> 2 then
                    (fold (\<lambda>up_index m.
                             push_low_adj_at (getUpperLayer tech via_layer) up_index via_index m)
                       upper_index nbl, lg)
                  else
                    (nbl, lg @ [ReportViaError net_name (getConstName via_layer)
                                  (layer_name_of (getUpperLayer tech via_layer))]))
      in if length lower_index = 1 then
           (fold (\<lambda>low_index m. push_low_adj_at (Some via_layer) via_index low_index m)
              lower_index (fst acc1), snd acc1)
         else if length lower_index > 2 then
           (fst acc1, snd acc1 @ [ReportViaError net_name (getConstName via_layer)
                                    (layer_name_of (getLowerLayer tech via_layer))])
         else acc1)"

definition buildLayerMaps_connect ::
  "('pol list \<Rightarrow> 'pol \<Rightarrow> 'pol list) \<Rightarrow> dbTechLayer list \<Rightarrow> string
     \<Rightarrow> (dbTechLayer \<times> 'pol list) list
     \<Rightarrow> 'pol node_map \<times> log_msg list \<Rightarrow> 'pol node_map \<times> log_msg list" where
  "buildLayerMaps_connect gtl_add tech net_name set_by_layer acc =
     fold (\<lambda>(tech_layer, pols) a.
             if getRoutingLevel tech_layer = 0 then
               fold (\<lambda>(via_index, via_it) b.
                       connect_via gtl_add tech net_name tech_layer via_index via_it b)
                 (zip [0..<length pols] pols) a
             else a)
          set_by_layer acc"

text \<open>
  A polygon library in one dimension for concrete layouts: a polygon is an interval
  \<open>(lo, hi)\<close>, two intervals touch when they share a point, and adding an interval to a
  set replaces the intervals it touches by their hull.
\<close>

definition interval_touch :: "int \<times> int \<Rightarrow> int \<times> int \<Rightarrow> bool" where
  "interval_touch a b \<longleftrightarrow> fst a \<le> snd b \<and> fst b \<le> snd a"

definition interval_add :: "(int \<times> int) list \<Rightarrow> int \<times> int \<Rightarrow> (int \<times> int) list" where
  "interval_add objs p =
     fold (\<lambda>q h. (min (fst q) (fst h), max (snd q) (snd h))) (filter (interval_touch p) objs) p
       # filter (\<lambda>q. \<not> interval_touch p q) objs"

subsection \<open>A small technology for concrete runs\<close>

text \<open>
  Two metal layers and the via layer between them, every factor 1, no table, and a
  fixed \<open>PAR\<close> threshold of 1.0 on every layer; one input pin of gate area 20.
\<close>

definition no_pwl :: pwl_pair where
  "no_pwl = \<lparr>indices = [], ratios = []\<rparr>"

definition toy_rule :: dbTechLayerAntennaRule where
  "toy_rule =
     \<lparr>isAreaFactorDiffUseOnly = False, getAreaFactor = 1,
      isSideAreaFactorDiffUseOnly = False, getSideAreaFactor = 1,
      getAreaMinusDiffFactor = 0, getGatePlusDiffFactor = 0,
      getAreaDiffReduce = no_pwl,
      getPAR = 1, getPSR = 0, getCAR = 0, getCSR = 0,
      getDiffPAR = no_pwl, getDiffPSR = no_pwl, getDiffCAR = no_pwl, getDiffCSR = no_pwl\<rparr>"

definition toy_M1 :: dbTechLayer where
  "toy_M1 = \<lparr>getConstName = ''M1'', getType = ROUTING, getRoutingLevel = 1,
             getThickness = 1, getDefaultAntennaRule = Some toy_rule\<rparr>"

definition toy_V1 :: dbTechLayer where
  "toy_V1 = \<lparr>getConstName = ''V1'', getType = CUT, getRoutingLevel = 0,
             getThickness = 0, getDefaultAntennaRule = Some toy_rule\<rparr>"

definition toy_M2 :: dbTechLayer where
  "toy_M2 = \<lparr>getConstName = ''M2'', getType = ROUTING, getRoutingLevel = 2,
             getThickness = 1, getDefaultAntennaRule = Some toy_rule\<rparr>"

definition toy_tech :: "dbTechLayer list" where
  "toy_tech = [toy_M1, toy_V1, toy_M2]"

definition toy_layer_info :: layer_info_map where
  "toy_layer_info = fst (initAntennaRules toy_tech (Map.empty, []))"

definition toy_mterm :: dbMTerm where
  "toy_mterm = \<lparr>getIoType = INPUT, getDefaultAntennaModel = Some [20], getDiffArea = []\<rparr>"

definition toy_iterm :: "string \<Rightarrow> dbITerm" where
  "toy_iterm n = \<lparr>getName = n, getMTerm = toy_mterm\<rparr>"

text \<open>A record of area \<open>a\<close> over the pins \<open>its\<close>, with gate area \<open>gg\<close> and diffusion area \<open>gd\<close>.\<close>

definition toy_info :: "real \<Rightarrow> real \<Rightarrow> real \<Rightarrow> dbITerm list \<Rightarrow> InfoType" where
  "toy_info a gg gd its =
     InfoType_init\<lparr>area := a, iterm_gate_area := gg, iterm_diff_area := gd, iterms := its\<rparr>"

text \<open>A rule with no fixed threshold and the one-point table \<open>(0, 2)\<close> for \<open>diffPAR\<close>.\<close>

definition pwl_only_rule :: dbTechLayerAntennaRule where
  "pwl_only_rule = toy_rule\<lparr>getPAR := 0, getDiffPAR := \<lparr>indices = [0], ratios = [2]\<rparr>\<rparr>"

text \<open>
  Islands for concrete layouts. A polygon is given by its area and its perimeter in
  database units, which \<open>toy_area\<close> and \<open>toy_perimeter\<close> read.
\<close>

definition toy_area :: "nat \<times> nat \<Rightarrow> real" where
  "toy_area p = real (fst p)"

definition toy_perimeter :: "nat \<times> nat \<Rightarrow> real" where
  "toy_perimeter p = real (snd p)"

definition toy_island :: "nat \<Rightarrow> nat \<Rightarrow> nat \<Rightarrow> string list \<Rightarrow> (nat \<times> nat) GraphNode" where
  "toy_island i a p names =
     \<lparr>node_id = i, isVia = False, pol = (a, p), low_adj = [],
      gates = map (\<lambda>n. ITermPin n (toy_iterm n)) names\<rparr>"

text \<open>Two islands of one metal layer that carry the same pin.\<close>

definition toy_two_islands :: "(nat \<times> nat) node_map" where
  "toy_two_islands =
     (\<lambda>l. [])(toy_M1 := [toy_island 0 10 22 [''u1/A''], toy_island 1 30 62 [''u1/A'']])"

text \<open>One pin under an island on each of the three layers.\<close>

definition toy_three_layers :: "(nat \<times> nat) node_map" where
  "toy_three_layers =
     (\<lambda>l. [])(toy_M1 := [toy_island 0 40 82 [''u1/A'']],
               toy_V1 := [toy_island 1 2 6 [''u1/A'']],
               toy_M2 := [toy_island 2 60 122 [''u1/A'']])"

definition toy_three_layers_ratios :: info_map where
  "toy_three_layers_ratios =
     calculateCAR toy_tech
       (calculatePAR toy_layer_info
          (calculateAreas toy_area toy_perimeter 1 toy_tech toy_three_layers (\<lambda>g. Map.empty)))"

subsection \<open>Notions used to state the properties of the stored records\<close>

definition pin_name :: "PinType \<Rightarrow> string" where
  "pin_name gate = (case gate of ITermPin n iterm \<Rightarrow> n | BTermPin n \<Rightarrow> n)"

text \<open>The pin is an instance terminal of this name that passes \<open>isValidGate\<close>.\<close>

definition valid_gate_named :: "string \<Rightarrow> PinType \<Rightarrow> bool" where
  "valid_gate_named gate_name gate =
     (case gate of
        ITermPin n iterm \<Rightarrow> n = gate_name \<and> isValidGate (getMTerm iterm)
      | BTermPin n \<Rightarrow> False)"

text \<open>The island has the gate of this name in its gate set.\<close>

definition carries :: "string \<Rightarrow> 'pol GraphNode \<Rightarrow> bool" where
  "carries gate_name node = list_ex (valid_gate_named gate_name) (gates node)"

text \<open>What the store holds after one more island: the island's record, or the merge.\<close>

definition merge_info :: "InfoType option \<Rightarrow> InfoType \<Rightarrow> InfoType" where
  "merge_info old info = (case old of None \<Rightarrow> info | Some x \<Rightarrow> InfoType_add x info)"

fun merge_nodes :: "InfoType option \<Rightarrow> InfoType list \<Rightarrow> InfoType option" where
  "merge_nodes old [] = old"
| "merge_nodes old (ni # nis) = merge_nodes (Some (merge_info old ni)) nis"

definition pin_gate_area :: "PinType \<Rightarrow> real" where
  "pin_gate_area gate =
     (case gate of ITermPin n iterm \<Rightarrow> gateArea (getMTerm iterm) | BTermPin n \<Rightarrow> 0)"

definition pin_diff_area :: "PinType \<Rightarrow> real" where
  "pin_diff_area gate =
     (case gate of ITermPin n iterm \<Rightarrow> diffArea (getMTerm iterm) | BTermPin n \<Rightarrow> 0)"

definition gate_area_inv :: "info_map \<Rightarrow> bool" where
  "gate_area_inv infos \<longleftrightarrow>
     (\<forall>g L r. infos g L = Some r \<longrightarrow> 0 < iterm_gate_area r \<and> 0 \<le> iterm_diff_area r)"

subsection \<open>Notions used to state the properties of the cumulative ratios\<close>

text \<open>Two layers are of the same kind when both are via layers or both are metal layers.\<close>

definition same_kind :: "dbTechLayer \<Rightarrow> dbTechLayer \<Rightarrow> bool" where
  "same_kind a b \<longleftrightarrow> (getRoutingLevel a = 0) = (getRoutingLevel b = 0)"

text \<open>
  The layers of the walk below \<open>l\<close> that have a record of the gate and are of the kind
  of \<open>l\<close>.
\<close>

fun lower_same_kind ::
  "dbTechLayer list \<Rightarrow> layer_records \<Rightarrow> dbTechLayer \<Rightarrow> dbTechLayer list" where
  "lower_same_kind [] recs l = []"
| "lower_same_kind (x # xs) recs l =
     (if x = l then []
      else (if recs x \<noteq> None \<and> same_kind x l then [x] else []) @ lower_same_kind xs recs l)"

definition field_at :: "(InfoType \<Rightarrow> real) \<Rightarrow> layer_records \<Rightarrow> dbTechLayer \<Rightarrow> real" where
  "field_at f recs x = (case recs x of None \<Rightarrow> 0 | Some r \<Rightarrow> f r)"

definition sum_below ::
  "(InfoType \<Rightarrow> real) \<Rightarrow> dbTechLayer list \<Rightarrow> layer_records \<Rightarrow> dbTechLayer \<Rightarrow> real" where
  "sum_below f stack recs l = sum_list (map (field_at f recs) (lower_same_kind stack recs l))"

text \<open>The running sum that the walk adds a layer's record to.\<close>

definition running :: "dbTechLayer \<Rightarrow> InfoType \<Rightarrow> InfoType \<Rightarrow> InfoType" where
  "running l sumWire sumVia = (if getRoutingLevel l = 0 then sumVia else sumWire)"

definition nonneg_factors :: "AntennaModel \<Rightarrow> bool" where
  "nonneg_factors am \<longleftrightarrow>
     0 \<le> metal_factor am \<and> 0 \<le> diff_metal_factor am \<and> 0 \<le> cut_factor am
     \<and> 0 \<le> diff_cut_factor am \<and> 0 \<le> side_metal_factor am
     \<and> 0 \<le> diff_side_metal_factor am"

text \<open>The records as \<open>calculateAreas\<close> stores them: no ratio yet, areas not negative.\<close>

definition fresh_inv :: "info_map \<Rightarrow> bool" where
  "fresh_inv infos \<longleftrightarrow>
     (\<forall>g L r. infos g L = Some r \<longrightarrow>
        PAR r = 0 \<and> PSR r = 0 \<and> CAR r = 0 \<and> CSR r = 0
        \<and> 0 \<le> area r \<and> 0 \<le> side_area r)"

subsection \<open>Notions used to state the properties of the checks\<close>



text \<open>The record has a rule and a violation; the gate has such a record.\<close>

definition record_violates :: "real \<Rightarrow> dbTechLayer \<Rightarrow> InfoType \<Rightarrow> bool" where
  "record_violates ratio_margin l info =
     (case getDefaultAntennaRule l of
        None \<Rightarrow> False
      | Some antenna_rule \<Rightarrow> node_has_violation ratio_margin l antenna_rule info)"

definition gate_violates :: "real \<Rightarrow> dbTechLayer list \<Rightarrow> info_map \<Rightarrow> string \<Rightarrow> bool" where
  "gate_violates ratio_margin layer_order infos g =
     list_ex (\<lambda>l. case infos g l of None \<Rightarrow> False
                   | Some info \<Rightarrow> record_violates ratio_margin l info) layer_order"

subsection \<open>A layout with two gates under one island, and a diode\<close>









subsection \<open>A via over two islands of the lower layer\<close>

text \<open>
  On the one-dimensional polygons: two islands on \<open>M1\<close>, two on \<open>M2\<close>, and one via
  polygon on \<open>V1\<close> that touches all four.
\<close>

definition toy_via_layout :: "(dbTechLayer \<times> (int \<times> int) list) list" where
  "toy_via_layout =
     [(toy_M1, [(0, 1), (5, 6)]), (toy_V1, [(0, 6)]), (toy_M2, [(0, 1), (5, 6)])]"

definition toy_via_graph :: "(int \<times> int) node_map \<times> log_msg list" where
  "toy_via_graph =
     buildLayerMaps_connect interval_add toy_tech ''n1'' toy_via_layout
       (fst (buildLayerMaps_nodes toy_via_layout), [])"

subsection \<open>A rule with a negative plus-diff factor\<close>

text \<open>The divisor of \<open>diff_PAR\<close> and \<open>diff_PSR\<close> in \<open>calculateWirePar\<close> and \<open>calculateViaPar\<close>.\<close>

definition diff_divisor :: "AntennaModel \<Rightarrow> InfoType \<Rightarrow> real" where
  "diff_divisor am info = iterm_gate_area info + plus_diff_factor am * iterm_diff_area info"

text \<open>
  A metal layer whose rule has the plus-diff factor \<open>-2\<close>, and an island over one input
  pin of gate area 20 and diffusion area 10.
\<close>

definition toy_N1 :: dbTechLayer where
  "toy_N1 = toy_M1\<lparr>getDefaultAntennaRule := Some (toy_rule\<lparr>getGatePlusDiffFactor := - 2\<rparr>)\<rparr>"

definition toy_negative_layer_info :: layer_info_map where
  "toy_negative_layer_info = fst (initAntennaRules [toy_N1] (Map.empty, []))"

definition toy_protected_island :: "(nat \<times> nat) GraphNode" where
  "toy_protected_island =
     \<lparr>node_id = 0, isVia = False, pol = (40, 82), low_adj = [],
      gates = [ITermPin ''u1/A''
                 \<lparr>getName = ''u1/A'',
                  getMTerm = \<lparr>getIoType = INPUT, getDefaultAntennaModel = Some [20],
                              getDiffArea = [10]\<rparr>\<rparr>]\<rparr>"

definition toy_protected_records :: info_map where
  "toy_protected_records =
     calculateAreas toy_area toy_perimeter 1 [toy_N1]
       ((\<lambda>l. [])(toy_N1 := [toy_protected_island])) (\<lambda>g. Map.empty)"

subsection \<open>Two islands with different pins\<close>

text \<open>
  An input pin of a given gate area; an island over two pins and an island over the
  first of them, in both orders; the records \<open>calculateAreas\<close> stores for each order.
\<close>

definition toy_pin :: "string \<Rightarrow> real \<Rightarrow> PinType" where
  "toy_pin n a =
     ITermPin n \<lparr>getName = n,
                 getMTerm = \<lparr>getIoType = INPUT, getDefaultAntennaModel = Some [a],
                             getDiffArea = []\<rparr>\<rparr>"

definition toy_mixed_islands :: "(nat \<times> nat) node_map" where
  "toy_mixed_islands =
     (\<lambda>l. [])(toy_M1 :=
        [\<lparr>node_id = 0, isVia = False, pol = (10, 22), low_adj = [],
          gates = [toy_pin ''u1/A'' 20, toy_pin ''u2/A'' 30]\<rparr>,
         \<lparr>node_id = 1, isVia = False, pol = (30, 62), low_adj = [],
          gates = [toy_pin ''u1/A'' 20]\<rparr>])"

definition toy_mixed_islands_rev :: "(nat \<times> nat) node_map" where
  "toy_mixed_islands_rev =
     (\<lambda>l. [])(toy_M1 :=
        [\<lparr>node_id = 0, isVia = False, pol = (30, 62), low_adj = [],
          gates = [toy_pin ''u1/A'' 20]\<rparr>,
         \<lparr>node_id = 1, isVia = False, pol = (10, 22), low_adj = [],
          gates = [toy_pin ''u1/A'' 20, toy_pin ''u2/A'' 30]\<rparr>])"

definition toy_mixed_records :: info_map where
  "toy_mixed_records =
     calculateAreas toy_area toy_perimeter 1 [toy_M1] toy_mixed_islands (\<lambda>g. Map.empty)"

definition toy_mixed_records_rev :: info_map where
  "toy_mixed_records_rev =
     calculateAreas toy_area toy_perimeter 1 [toy_M1] toy_mixed_islands_rev (\<lambda>g. Map.empty)"

section \<open>The rule store\<close>

lemma initAntennaRules_stores:
  "fst (initAntennaRules ls (m, lg)) l
     = (if l \<in> set ls then Some (initAntennaRules_layer l) else m l)"
  by (induction ls arbitrary: m lg) auto

text \<open>
  C8. During the initialisation of the rule store, a layer whose antenna rule flags
  the area factor as diffusion-use-only gets the factor in \<open>diff_metal_factor\<close> and
  \<open>diff_cut_factor\<close> only, \<open>metal_factor\<close> and \<open>cut_factor\<close> staying 1.0; otherwise all
  four get it. \<open>side_metal_factor\<close> and \<open>diff_side_metal_factor\<close> are split the same way
  by the flag of the side-area factor.
\<close>

theorem initAntennaRules_factors:
  assumes "tech_layer \<in> set tech"
    and "getDefaultAntennaRule tech_layer = Some antenna_rule"
  shows "let am = layer_info_at (fst (initAntennaRules tech (Map.empty, []))) tech_layer
         in (if isAreaFactorDiffUseOnly antenna_rule
             then diff_metal_factor am = getAreaFactor antenna_rule
                  \<and> diff_cut_factor am = getAreaFactor antenna_rule
                  \<and> metal_factor am = 1 \<and> cut_factor am = 1
             else metal_factor am = getAreaFactor antenna_rule
                  \<and> diff_metal_factor am = getAreaFactor antenna_rule
                  \<and> cut_factor am = getAreaFactor antenna_rule
                  \<and> diff_cut_factor am = getAreaFactor antenna_rule)
          \<and> (if isSideAreaFactorDiffUseOnly antenna_rule
             then diff_side_metal_factor am = getSideAreaFactor antenna_rule
                  \<and> side_metal_factor am = 1
             else side_metal_factor am = getSideAreaFactor antenna_rule
                  \<and> diff_side_metal_factor am = getSideAreaFactor antenna_rule)"
  using assms
  by (simp add: initAntennaRules_stores layer_info_at_def initAntennaRules_layer_def Let_def)

theorem initAntennaRules_factors_witness:
  "(let am = layer_info_at
               (fst (initAntennaRules
                  [toy_M1\<lparr>getDefaultAntennaRule :=
                     Some (toy_rule\<lparr>isAreaFactorDiffUseOnly := True, getAreaFactor := 2,
                                     getSideAreaFactor := 3\<rparr>)\<rparr>] (Map.empty, [])))
               (toy_M1\<lparr>getDefaultAntennaRule :=
                     Some (toy_rule\<lparr>isAreaFactorDiffUseOnly := True, getAreaFactor := 2,
                                     getSideAreaFactor := 3\<rparr>)\<rparr>)
    in diff_metal_factor am = 2 \<and> diff_cut_factor am = 2 \<and> metal_factor am = 1
       \<and> cut_factor am = 1 \<and> side_metal_factor am = 3 \<and> diff_side_metal_factor am = 3)
   \<and> (let am = layer_info_at toy_layer_info toy_M1
      in metal_factor am = 1 \<and> diff_metal_factor am = 1 \<and> cut_factor am = 1
         \<and> diff_cut_factor am = 1)"
  using initAntennaRules_factors[of
      "toy_M1\<lparr>getDefaultAntennaRule :=
         Some (toy_rule\<lparr>isAreaFactorDiffUseOnly := True, getAreaFactor := 2,
                         getSideAreaFactor := 3\<rparr>)\<rparr>"
      "[toy_M1\<lparr>getDefaultAntennaRule :=
         Some (toy_rule\<lparr>isAreaFactorDiffUseOnly := True, getAreaFactor := 2,
                         getSideAreaFactor := 3\<rparr>)\<rparr>]"
      "toy_rule\<lparr>isAreaFactorDiffUseOnly := True, getAreaFactor := 2,
                getSideAreaFactor := 3\<rparr>"]
    initAntennaRules_factors[of toy_M1 toy_tech toy_rule]
  by (simp add: toy_layer_info_def toy_tech_def toy_M1_def toy_rule_def Let_def)

section \<open>Piecewise-linear tables\<close>

lemma pwl_loop_interp:
  assumes "sorted (indices p)"
    and "k + 1 < length (indices p)"
    and "indices p ! k \<le> x" and "x < indices p ! (k + 1)"
    and "1 \<le> i" and "i \<le> k + 1"
  shows "pwl_loop p x i (indices p ! (i - 1)) (ratios p ! (i - 1)) s = segment_value p k x"
  using assms
proof (induction "k + 1 - i" arbitrary: i s)
  case 0
  then have i: "i = k + 1" by simp
  show ?case using 0 unfolding i
    by (subst pwl_loop.simps) (simp add: segment_value_def Let_def)
next
  case (Suc d)
  then have ik: "i \<le> k" "i < length (indices p)" by simp_all
  have "indices p ! i \<le> indices p ! k"
    using Suc.prems(1,2) ik(1) by (simp add: sorted_nth_mono)
  then have nt: "\<not> (indices p ! (i - 1) \<le> x \<and> x < indices p ! i)"
    using Suc.prems(3) by simp
  have d: "d = k + 1 - (i + 1)" using Suc.hyps(2) by simp
  have "pwl_loop p x (i + 1) (indices p ! ((i + 1) - 1)) (ratios p ! ((i + 1) - 1)) t
          = segment_value p k x" for t
    using Suc.hyps(1)[OF d Suc.prems(1,2,3,4)] ik by simp
  then show ?case
    using nt ik by (subst pwl_loop.simps) (auto simp: Let_def)
qed

lemma pwl_loop_extrap:
  assumes "\<forall>j. i - 1 \<le> j \<and> j + 1 < length (indices p)
              \<longrightarrow> \<not> (indices p ! j \<le> x \<and> x < indices p ! (j + 1))"
    and "1 \<le> i" and "i \<le> length (indices p)" and "2 \<le> length (indices p)"
    and "i = length (indices p) \<longrightarrow>
           s = (ratios p ! (i - 1) - ratios p ! (i - 2))
               / (indices p ! (i - 1) - indices p ! (i - 2))"
  shows "pwl_loop p x i (indices p ! (i - 1)) (ratios p ! (i - 1)) s = last_segment_value p x"
  using assms
proof (induction "length (indices p) - i" arbitrary: i s)
  case 0
  then have i: "i = length (indices p)" by simp
  show ?case using 0(6) unfolding i
    by (subst pwl_loop.simps) (simp add: last_segment_value_def Let_def)
next
  case (Suc d)
  then have il: "i < length (indices p)" by simp
  have nt: "\<not> (indices p ! (i - 1) \<le> x \<and> x < indices p ! i)"
    using Suc.prems(1)[rule_format, of "i - 1"] Suc.prems(2) il by simp
  have d: "d = length (indices p) - (i + 1)" using Suc.hyps(2) by simp
  have a1: "\<forall>j. (i + 1) - 1 \<le> j \<and> j + 1 < length (indices p)
               \<longrightarrow> \<not> (indices p ! j \<le> x \<and> x < indices p ! (j + 1))"
    using Suc.prems(1) by auto
  have "pwl_loop p x (i + 1) (indices p ! ((i + 1) - 1)) (ratios p ! ((i + 1) - 1))
          ((ratios p ! i - ratios p ! (i - 1)) / (indices p ! i - indices p ! (i - 1)))
        = last_segment_value p x"
  proof (rule Suc.hyps(1)[OF d a1])
    show "1 \<le> i + 1" by simp
    show "i + 1 \<le> length (indices p)" using il by simp
    show "2 \<le> length (indices p)" by fact
    show "i + 1 = length (indices p) \<longrightarrow>
      (ratios p ! i - ratios p ! (i - 1)) / (indices p ! i - indices p ! (i - 1)) =
      (ratios p ! (i + 1 - 1) - ratios p ! (i + 1 - 2))
        / (indices p ! (i + 1 - 1) - indices p ! (i + 1 - 2))"
    proof
      have "i + 1 - 1 = i" "i + 1 - 2 = i - 1" by simp_all
      then show "(ratios p ! i - ratios p ! (i - 1)) / (indices p ! i - indices p ! (i - 1)) =
        (ratios p ! (i + 1 - 1) - ratios p ! (i + 1 - 2))
          / (indices p ! (i + 1 - 1) - indices p ! (i + 1 - 2))"
        by (simp only:)
    qed
  qed
  then show ?case
    using nt il by (subst pwl_loop.simps) (auto simp: Let_def)
qed

lemma getPwlFactor_enters_loop:
  assumes "2 \<le> length (indices p)"
  shows "getPwlFactor p x d
           = pwl_loop p x 1 (indices p ! 0) (ratios p ! 0)
               ((ratios p ! 0 - ratios p ! 0) / (indices p ! 0 - indices p ! 0))"
proof -
  have ne: "indices p \<noteq> []" "length (indices p) \<noteq> 1" "0 < length (indices p)"
    using assms by auto
  show ?thesis
    unfolding getPwlFactor_def using ne
    by (subst pwl_loop.simps) (simp add: Let_def)
qed

lemma getPwlFactor_interp:
  assumes "sorted (indices p)" and "k + 1 < length (indices p)"
    and "indices p ! k \<le> x" and "x < indices p ! (k + 1)"
  shows "getPwlFactor p x d = segment_value p k x"
proof -
  have "2 \<le> length (indices p)" using assms(2) by simp
  then show ?thesis
    using pwl_loop_interp[OF assms, of 1] by (simp add: getPwlFactor_enters_loop)
qed

lemma getPwlFactor_extrap:
  assumes "sorted (indices p)" and "2 \<le> length (indices p)"
    and "x < indices p ! 0 \<or> indices p ! (length (indices p) - 1) \<le> x"
  shows "getPwlFactor p x d = last_segment_value p x"
proof -
  have no: "\<forall>j. 1 - 1 \<le> j \<and> j + 1 < length (indices p)
              \<longrightarrow> \<not> (indices p ! j \<le> x \<and> x < indices p ! (j + 1))"
  proof (intro allI impI)
    fix j assume j: "1 - 1 \<le> j \<and> j + 1 < length (indices p)"
    have lo: "indices p ! 0 \<le> indices p ! j"
      using assms(1) j by (simp add: sorted_nth_mono)
    have hi: "indices p ! (j + 1) \<le> indices p ! (length (indices p) - 1)"
      using assms(1) j by (intro sorted_nth_mono) auto
    show "\<not> (indices p ! j \<le> x \<and> x < indices p ! (j + 1))"
      using assms(3) lo hi by auto
  qed
  have "pwl_loop p x 1 (indices p ! (1 - 1)) (ratios p ! (1 - 1)) s = last_segment_value p x"
    for s
    by (rule pwl_loop_extrap[OF no]) (use assms(2) in auto)
  then show ?thesis
    using assms(2) by (simp add: getPwlFactor_enters_loop)
qed

lemma pwl_loop_first_match:
  assumes "k + 1 < length (indices p)"
    and "indices p ! k \<le> x" and "x < indices p ! (k + 1)"
    and "\<forall>j < k. \<not> (indices p ! j \<le> x \<and> x < indices p ! (j + 1))"
    and "1 \<le> i" and "i \<le> k + 1"
  shows "pwl_loop p x i (indices p ! (i - 1)) (ratios p ! (i - 1)) s = segment_value p k x"
  using assms
proof (induction "k + 1 - i" arbitrary: i s)
  case 0
  then have i: "i = k + 1" by simp
  show ?case using 0 unfolding i
    by (subst pwl_loop.simps) (simp add: segment_value_def Let_def)
next
  case (Suc d)
  then have ik: "i \<le> k" "i < length (indices p)" by simp_all
  have "i - 1 < k" "i - 1 + 1 = i" using ik(1) Suc.prems(5) by simp_all
  then have nt: "\<not> (indices p ! (i - 1) \<le> x \<and> x < indices p ! i)"
    using Suc.prems(4)[rule_format, of "i - 1"] by simp
  have d: "d = k + 1 - (i + 1)" using Suc.hyps(2) by simp
  have "pwl_loop p x (i + 1) (indices p ! ((i + 1) - 1)) (ratios p ! ((i + 1) - 1)) t
          = segment_value p k x" for t
    using Suc.hyps(1)[OF d Suc.prems(1,2,3,4)] ik by simp
  then show ?case
    using nt ik by (subst pwl_loop.simps) (auto simp: Let_def)
qed

lemma getPwlFactor_first_match:
  assumes "k + 1 < length (indices p)"
    and "indices p ! k \<le> x" and "x < indices p ! (k + 1)"
    and "\<forall>j < k. \<not> (indices p ! j \<le> x \<and> x < indices p ! (j + 1))"
  shows "getPwlFactor p x d = segment_value p k x"
proof -
  have "2 \<le> length (indices p)" using assms(1) by simp
  then show ?thesis
    using pwl_loop_first_match[OF assms, of 1] by (simp add: getPwlFactor_enters_loop)
qed

lemma getPwlFactor_no_match:
  assumes "2 \<le> length (indices p)"
    and "\<forall>j. j + 1 < length (indices p) \<longrightarrow> \<not> (indices p ! j \<le> x \<and> x < indices p ! (j + 1))"
  shows "getPwlFactor p x d = last_segment_value p x"
proof -
  have no: "\<forall>j. 1 - 1 \<le> j \<and> j + 1 < length (indices p)
              \<longrightarrow> \<not> (indices p ! j \<le> x \<and> x < indices p ! (j + 1))"
    using assms(2) by simp
  have "pwl_loop p x 1 (indices p ! (1 - 1)) (ratios p ! (1 - 1)) s = last_segment_value p x"
    for s
    by (rule pwl_loop_extrap[OF no]) (use assms(1) in auto)
  then show ?thesis
    using assms(1) by (simp add: getPwlFactor_enters_loop)
qed

lemma descending_no_match:
  "\<forall>j. j + 1 < length [20, 10, 0 :: real]
        \<longrightarrow> \<not> ([20, 10, 0 :: real] ! j \<le> 15 \<and> 15 < [20, 10, 0 :: real] ! (j + 1))"
proof (intro allI impI)
  fix j :: nat assume "j + 1 < length [20, 10, 0 :: real]"
  then have "j = 0 \<or> j = 1" by auto
  then show "\<not> ([20, 10, 0 :: real] ! j \<le> 15 \<and> 15 < [20, 10, 0 :: real] ! (j + 1))"
    by auto
qed

text \<open>
  C5, as stated for every table, fails: on the table with the descending indices
  \<open>20, 10, 0\<close> and the ratios \<open>4, 3, 1\<close> the reference value 15 lies between the
  indices of the first two points, whose interpolation is 3.5, and \<open>getPwlFactor\<close>
  returns 4, the extrapolation from the last point: the loop tests
  \<open>index1 \<le> ref < index2\<close> on each pair in table order, which no pair of a descending
  table passes.
\<close>

theorem getPwlFactor_descending_counterexample:
  "getPwlFactor \<lparr>indices = [20, 10, 0], ratios = [4, 3, 1]\<rparr> 15 0 = 4
   \<and> segment_value \<lparr>indices = [20, 10, 0], ratios = [4, 3, 1]\<rparr> 0 15 = 7 / 2
   \<and> (10::real) \<le> 15 \<and> (15::real) \<le> 20"
  by (simp add: getPwlFactor_def pwl_loop.simps segment_value_def)

text \<open>
  C5, amended. The lookup \<open>getPwlFactor\<close> returns the caller's default for an empty
  table and the single ratio for a table of one point. For every table of two or more
  points it returns the linear interpolation between the first two consecutive points,
  in table order, with \<open>index k \<le> ref < index (k + 1)\<close>, and, when no two consecutive
  points are so, the linear extrapolation from the last point with the slope of the
  last segment (the last two indices being different). For a table with indices in
  ascending order these are the two consecutive points whose index interval contains
  the reference value, and the extrapolation from the last point for a reference value
  outside the index range (below the first index, or at or above the last).
\<close>

theorem getPwlFactor_table:
  assumes "length (ratios p) = length (indices p)"
  shows "(indices p = [] \<longrightarrow> getPwlFactor p x d = d)
       \<and> (length (indices p) = 1 \<longrightarrow> getPwlFactor p x d = ratios p ! 0)
       \<and> (2 \<le> length (indices p) \<longrightarrow>
            (\<forall>k. k + 1 < length (indices p) \<and> indices p ! k \<le> x \<and> x < indices p ! (k + 1)
                  \<and> (\<forall>j < k. \<not> (indices p ! j \<le> x \<and> x < indices p ! (j + 1)))
                  \<longrightarrow> getPwlFactor p x d = segment_value p k x)
            \<and> ((\<forall>j. j + 1 < length (indices p)
                      \<longrightarrow> \<not> (indices p ! j \<le> x \<and> x < indices p ! (j + 1)))
               \<and> indices p ! (length (indices p) - 2) \<noteq> indices p ! (length (indices p) - 1)
                  \<longrightarrow> getPwlFactor p x d = last_segment_value p x))
       \<and> (2 \<le> length (indices p) \<and> sorted (indices p) \<longrightarrow>
            (\<forall>k. k + 1 < length (indices p) \<and> indices p ! k \<le> x \<and> x < indices p ! (k + 1)
                  \<longrightarrow> getPwlFactor p x d = segment_value p k x)
            \<and> (indices p ! (length (indices p) - 2) < indices p ! (length (indices p) - 1)
               \<and> (x < indices p ! 0 \<or> indices p ! (length (indices p) - 1) \<le> x)
                  \<longrightarrow> getPwlFactor p x d = last_segment_value p x))"
proof (intro conjI impI allI)
  show "getPwlFactor p x d = d" if "indices p = []"
    using that by (simp add: getPwlFactor_def)
  show "getPwlFactor p x d = ratios p ! 0" if "length (indices p) = 1"
    using that by (auto simp: getPwlFactor_def)
  show "getPwlFactor p x d = segment_value p k x"
    if "2 \<le> length (indices p)"
      and "k + 1 < length (indices p) \<and> indices p ! k \<le> x \<and> x < indices p ! (k + 1)
           \<and> (\<forall>j < k. \<not> (indices p ! j \<le> x \<and> x < indices p ! (j + 1)))" for k
    using that by (intro getPwlFactor_first_match) auto
  show "getPwlFactor p x d = last_segment_value p x"
    if "2 \<le> length (indices p)"
      and "(\<forall>j. j + 1 < length (indices p)
                      \<longrightarrow> \<not> (indices p ! j \<le> x \<and> x < indices p ! (j + 1)))
           \<and> indices p ! (length (indices p) - 2) \<noteq> indices p ! (length (indices p) - 1)"
    using that by (intro getPwlFactor_no_match) auto
  show "getPwlFactor p x d = segment_value p k x"
    if "2 \<le> length (indices p) \<and> sorted (indices p)"
      and "k + 1 < length (indices p) \<and> indices p ! k \<le> x \<and> x < indices p ! (k + 1)" for k
    using that by (simp add: getPwlFactor_interp)
  show "getPwlFactor p x d = last_segment_value p x"
    if "2 \<le> length (indices p) \<and> sorted (indices p)"
      and "indices p ! (length (indices p) - 2) < indices p ! (length (indices p) - 1)
           \<and> (x < indices p ! 0 \<or> indices p ! (length (indices p) - 1) \<le> x)"
    using that by (simp add: getPwlFactor_extrap)
qed

theorem getPwlFactor_table_witness:
  "getPwlFactor \<lparr>indices = [], ratios = []\<rparr> 5 7 = 7
   \<and> getPwlFactor \<lparr>indices = [3], ratios = [4]\<rparr> 5 7 = 4
   \<and> getPwlFactor \<lparr>indices = [0, 10, 20], ratios = [1, 3, 4]\<rparr> 5 0 = 2
   \<and> getPwlFactor \<lparr>indices = [0, 10, 20], ratios = [1, 3, 4]\<rparr> 30 0 = 5
   \<and> getPwlFactor \<lparr>indices = [0, 10, 20], ratios = [1, 3, 4]\<rparr> (- 10) 0 = 1
   \<and> getPwlFactor \<lparr>indices = [0, 10, 5, 20], ratios = [1, 3, 2, 4]\<rparr> 7 0 = 12 / 5
   \<and> getPwlFactor \<lparr>indices = [20, 10, 0], ratios = [4, 3, 1]\<rparr> 15 0 = 4"
proof -
  note t = getPwlFactor_table
  have a: "getPwlFactor \<lparr>indices = [], ratios = []\<rparr> 5 7 = 7"
    using t[of "\<lparr>indices = [], ratios = []\<rparr>" 5 7] by simp
  have b: "getPwlFactor \<lparr>indices = [3], ratios = [4]\<rparr> 5 7 = 4"
    using t[of "\<lparr>indices = [3], ratios = [4]\<rparr>" 5 7] by simp
  have c: "getPwlFactor \<lparr>indices = [0, 10, 20], ratios = [1, 3, 4]\<rparr> 5 0 = 2"
    using t[of "\<lparr>indices = [0, 10, 20], ratios = [1, 3, 4]\<rparr>" 5 0,
      THEN conjunct2, THEN conjunct2, THEN conjunct2, THEN mp, THEN conjunct1, THEN spec, of 0]
    by (simp add: segment_value_def)
  have d: "getPwlFactor \<lparr>indices = [0, 10, 20], ratios = [1, 3, 4]\<rparr> 30 0 = 5"
    using t[of "\<lparr>indices = [0, 10, 20], ratios = [1, 3, 4]\<rparr>" 30 0]
    by (simp add: last_segment_value_def)
  have e: "getPwlFactor \<lparr>indices = [0, 10, 20], ratios = [1, 3, 4]\<rparr> (- 10) 0 = 1"
    using t[of "\<lparr>indices = [0, 10, 20], ratios = [1, 3, 4]\<rparr>" "- 10" 0]
    by (simp add: last_segment_value_def)
  have f: "getPwlFactor \<lparr>indices = [0, 10, 5, 20], ratios = [1, 3, 2, 4]\<rparr> 7 0 = 12 / 5"
    using t[of "\<lparr>indices = [0, 10, 5, 20], ratios = [1, 3, 2, 4]\<rparr>" 7 0,
      THEN conjunct2, THEN conjunct2, THEN conjunct1, THEN mp, THEN conjunct1, THEN spec, of 0]
    by (simp add: segment_value_def)
  have g: "getPwlFactor \<lparr>indices = [20, 10, 0], ratios = [4, 3, 1]\<rparr> 15 0 = 4"
    using t[of "\<lparr>indices = [20, 10, 0], ratios = [4, 3, 1]\<rparr>" 15 0,
      THEN conjunct2, THEN conjunct2, THEN conjunct1, THEN mp, THEN conjunct2, THEN mp]
      descending_no_match
    by (simp add: last_segment_value_def)
  show ?thesis using a b c d e f g by simp
qed

section \<open>Partial ratios\<close>

lemma toy_layer_facts:
  "getRoutingLevel toy_M1 = 1" "getRoutingLevel toy_V1 = 0" "getRoutingLevel toy_M2 = 2"
  "getThickness toy_M1 = 1" "getThickness toy_V1 = 0" "getThickness toy_M2 = 1"
  "getDefaultAntennaRule toy_M1 = Some toy_rule"
  "getDefaultAntennaRule toy_V1 = Some toy_rule"
  "getDefaultAntennaRule toy_M2 = Some toy_rule"
  "toy_M1 \<noteq> toy_V1" "toy_V1 \<noteq> toy_M1" "toy_M1 \<noteq> toy_M2" "toy_M2 \<noteq> toy_M1"
  "toy_V1 \<noteq> toy_M2" "toy_M2 \<noteq> toy_V1"
  by (simp_all add: toy_M1_def toy_V1_def toy_M2_def)

lemma toy_rule_facts:
  "getPAR toy_rule = 1" "getPSR toy_rule = 0" "getCAR toy_rule = 0" "getCSR toy_rule = 0"
  "getAreaDiffReduce toy_rule = no_pwl" "getDiffPAR toy_rule = no_pwl"
  "getDiffPSR toy_rule = no_pwl" "getDiffCAR toy_rule = no_pwl" "getDiffCSR toy_rule = no_pwl"
  "getPwlFactor no_pwl x d = d"
  by (simp_all add: toy_rule_def no_pwl_def getPwlFactor_def)

lemma toy_layer_info_at:
  assumes "l \<in> set toy_tech"
  shows "layer_info_at toy_layer_info l =
           \<lparr>layer = Some l, metal_factor = 1, diff_metal_factor = 1,
            cut_factor = 1, diff_cut_factor = 1,
            side_metal_factor = 1, diff_side_metal_factor = 1,
            minus_diff_factor = 0, plus_diff_factor = 0, diff_metal_reduce_factor = 1\<rparr>"
proof -
  have "getDefaultAntennaRule l = Some toy_rule"
    using assms by (auto simp: toy_tech_def toy_layer_facts)
  then show ?thesis
    using assms
    by (simp add: toy_layer_info_def initAntennaRules_stores layer_info_at_def
          initAntennaRules_layer_def Let_def toy_rule_def)
qed

lemma toy_info_fields:
  "PAR (toy_info a gg gd its) = 0" "PSR (toy_info a gg gd its) = 0"
  "diff_PAR (toy_info a gg gd its) = 0" "diff_PSR (toy_info a gg gd its) = 0"
  "CAR (toy_info a gg gd its) = 0" "CSR (toy_info a gg gd its) = 0"
  "diff_CAR (toy_info a gg gd its) = 0" "diff_CSR (toy_info a gg gd its) = 0"
  "area (toy_info a gg gd its) = a" "side_area (toy_info a gg gd its) = 0"
  "iterm_gate_area (toy_info a gg gd its) = gg" "iterm_diff_area (toy_info a gg gd its) = gd"
  "iterms (toy_info a gg gd its) = its"
  by (simp_all add: toy_info_def InfoType_init_def)

text \<open>
  C1. For every record of a gate on a metal layer, \<open>calculatePAR\<close> (through
  \<open>calculateWirePar\<close>) sets, with \<open>A = area\<close>, \<open>S = side_area\<close>, \<open>Gg = iterm_gate_area\<close>,
  \<open>Gd = iterm_diff_area\<close> and \<open>R\<close> the evaluation of the table \<open>areaDiffReduce\<close> at \<open>Gd\<close>
  with default 1.0 (1.0 on a layer without a rule): when \<open>Gd \<noteq> 0\<close>,
  \<open>PAR = (diff_metal_factor * A) / Gg\<close>, \<open>PSR = (diff_side_metal_factor * S) / Gg\<close>,
  \<open>diff_PAR = (diff_metal_factor * A * R - minus_diff_factor * Gd) / (Gg + plus_diff_factor * Gd)\<close>
  and \<open>diff_PSR\<close> likewise from \<open>diff_side_metal_factor * S\<close>; when \<open>Gd = 0\<close>, the same
  four from \<open>metal_factor\<close> and \<open>side_metal_factor\<close>, divided by \<open>Gg\<close> alone.
\<close>

theorem calculateWirePar_formulas:
  assumes "infos gate tech_layer = Some info"
    and "getRoutingLevel tech_layer \<noteq> 0"
  shows "calculatePAR layer_info infos gate tech_layer
           = Some (calculateWirePar layer_info tech_layer info)
     \<and> (let r = calculateWirePar layer_info tech_layer info;
            am = layer_info_at layer_info tech_layer;
            A = area info; S = side_area info;
            Gg = iterm_gate_area info; Gd = iterm_diff_area info;
            R = (case getDefaultAntennaRule tech_layer of
                   None \<Rightarrow> 1
                 | Some antenna_rule \<Rightarrow> getPwlFactor (getAreaDiffReduce antenna_rule) Gd 1)
        in (Gd \<noteq> 0 \<longrightarrow>
              PAR r = (diff_metal_factor am * A) / Gg
            \<and> PSR r = (diff_side_metal_factor am * S) / Gg
            \<and> diff_PAR r = (diff_metal_factor am * A * R - minus_diff_factor am * Gd)
                           / (Gg + plus_diff_factor am * Gd)
            \<and> diff_PSR r = (diff_side_metal_factor am * S * R - minus_diff_factor am * Gd)
                           / (Gg + plus_diff_factor am * Gd))
         \<and> (Gd = 0 \<longrightarrow>
              PAR r = (metal_factor am * A) / Gg
            \<and> PSR r = (side_metal_factor am * S) / Gg
            \<and> diff_PAR r = (metal_factor am * A * R) / Gg
            \<and> diff_PSR r = (side_metal_factor am * S * R) / Gg)
         \<and> area r = A \<and> side_area r = S \<and> iterm_gate_area r = Gg \<and> iterm_diff_area r = Gd)"
  using assms by (simp add: calculatePAR_def calculateWirePar_def Let_def)

theorem calculateWirePar_formulas_witness:
  "map_option (\<lambda>r. (PAR r, PSR r, diff_PAR r, diff_PSR r))
     (calculatePAR toy_layer_info
        ((\<lambda>g. Map.empty)(''u1/A'' := [toy_M1 \<mapsto> toy_info 40 20 0 [toy_iterm ''u1/A'']]))
        ''u1/A'' toy_M1) = Some (2, 0, 2, 0)
   \<and> map_option (\<lambda>r. (PAR r, PSR r, diff_PAR r, diff_PSR r))
     (calculatePAR toy_layer_info
        ((\<lambda>g. Map.empty)(''u1/A'' := [toy_M1 \<mapsto> toy_info 40 20 5 [toy_iterm ''u1/A'']]))
        ''u1/A'' toy_M1) = Some (2, 0, 2, 0)"
  using calculateWirePar_formulas[of
      "(\<lambda>g. Map.empty)(''u1/A'' := [toy_M1 \<mapsto> toy_info 40 20 0 [toy_iterm ''u1/A'']])"
      "''u1/A''" toy_M1 "toy_info 40 20 0 [toy_iterm ''u1/A'']" toy_layer_info]
    calculateWirePar_formulas[of
      "(\<lambda>g. Map.empty)(''u1/A'' := [toy_M1 \<mapsto> toy_info 40 20 5 [toy_iterm ''u1/A'']])"
      "''u1/A''" toy_M1 "toy_info 40 20 5 [toy_iterm ''u1/A'']" toy_layer_info]
  by (simp add: toy_layer_facts toy_rule_facts toy_info_fields toy_layer_info_at toy_tech_def
        Let_def)

section \<open>Rule checks and the ratio margin\<close>


lemma margin_scale:
  fixes T r :: real
  assumes "0 < r" "r < 100" "0 < T"
  shows "0 < T * (1 - r / 100)" "T * (1 - r / 100) < T"
proof -
  have f: "0 < 1 - r / 100" "1 - r / 100 < 1" using assms by simp_all
  show "0 < T * (1 - r / 100)" using f(1) assms(3) by simp
  show "T * (1 - r / 100) < T" using f(2) assms(3) by simp
qed

lemma checkPAR_margin_mono:
  assumes r: "0 < r" "r < 100"
    and nn: "0 \<le> getPAR rule" "0 \<le> getPwlFactor (getDiffPAR rule) (iterm_diff_area info) 0"
    and v: "fst (fst (checkPAR 0 rule info v1 r1))"
  shows "fst (fst (checkPAR r rule info v2 r2))"
proof (cases "getPAR rule = 0")
  case True
  with v have w: "getPwlFactor (getDiffPAR rule) (iterm_diff_area info) 0 \<noteq> 0"
    "diff_PAR info > getPwlFactor (getDiffPAR rule) (iterm_diff_area info) 0"
    by (simp_all add: checkPAR_def Let_def)
  then have "0 < getPwlFactor (getDiffPAR rule) (iterm_diff_area info) 0" using nn(2) by simp
  from margin_scale[OF r this] w(2) True r show ?thesis
    by (simp add: checkPAR_def Let_def)
next
  case False
  with v have w: "PAR info > getPAR rule" by (simp add: checkPAR_def Let_def)
  from False nn(1) have "0 < getPAR rule" by simp
  from margin_scale[OF r this] w False r show ?thesis
    by (simp add: checkPAR_def Let_def)
qed

lemma checkPSR_margin_mono:
  assumes r: "0 < r" "r < 100"
    and nn: "0 \<le> getPSR rule" "0 \<le> getPwlFactor (getDiffPSR rule) (iterm_diff_area info) 0"
    and v: "fst (fst (checkPSR 0 rule info v1 r1))"
  shows "fst (fst (checkPSR r rule info v2 r2))"
proof (cases "getPSR rule = 0")
  case True
  with v have w: "getPwlFactor (getDiffPSR rule) (iterm_diff_area info) 0 \<noteq> 0"
    "diff_PSR info > getPwlFactor (getDiffPSR rule) (iterm_diff_area info) 0"
    by (simp_all add: checkPSR_def Let_def)
  then have "0 < getPwlFactor (getDiffPSR rule) (iterm_diff_area info) 0" using nn(2) by simp
  from margin_scale[OF r this] w(2) True r show ?thesis
    by (simp add: checkPSR_def Let_def)
next
  case False
  with v have w: "PSR info > getPSR rule" by (simp add: checkPSR_def Let_def)
  from False nn(1) have "0 < getPSR rule" by simp
  from margin_scale[OF r this] w False r show ?thesis
    by (simp add: checkPSR_def Let_def)
qed

text \<open>
  C3, as stated, fails: a record whose only applicable thresholds are PWL thresholds
  (every fixed threshold is 0, \<open>diffPAR\<close> is the one-point table \<open>(0, 2)\<close>) with
  \<open>diff_PAR = 1.9\<close> passes at margin 0 and violates at margin 20, because
  \<open>checkPAR\<close> scales the PWL threshold by the margin too.
\<close>

theorem ratio_margin_pwl_only_counterexample:
  "getPAR pwl_only_rule = 0 \<and> getPSR pwl_only_rule = 0
   \<and> getCAR pwl_only_rule = 0 \<and> getCSR pwl_only_rule = 0
   \<and> \<not> node_has_violation 0 toy_M1 pwl_only_rule ((toy_info 40 20 0 [])\<lparr>diff_PAR := 19 / 10\<rparr>)
   \<and> node_has_violation 20 toy_M1 pwl_only_rule ((toy_info 40 20 0 [])\<lparr>diff_PAR := 19 / 10\<rparr>)"
  by (simp add: node_has_violation_def checkPAR_def checkPSR_def checkCAR_def checkCSR_def
        pwl_only_rule_def toy_rule_def no_pwl_def getPwlFactor_def toy_info_def
        InfoType_init_def toy_layer_facts Let_def)

lemma checkPAR_threshold:
  "fst (fst (checkPAR r rule info verbose report)) \<longleftrightarrow>
     (if getPAR rule * (1 - r / 100) \<noteq> 0 then getPAR rule * (1 - r / 100) < PAR info
      else getPwlFactor (getDiffPAR rule) (iterm_diff_area info) 0 * (1 - r / 100) \<noteq> 0
           \<and> getPwlFactor (getDiffPAR rule) (iterm_diff_area info) 0 * (1 - r / 100)
               < diff_PAR info)"
  by (simp add: checkPAR_def Let_def)

lemma checkPSR_threshold:
  "fst (fst (checkPSR r rule info verbose report)) \<longleftrightarrow>
     (if getPSR rule * (1 - r / 100) \<noteq> 0 then getPSR rule * (1 - r / 100) < PSR info
      else getPwlFactor (getDiffPSR rule) (iterm_diff_area info) 0 * (1 - r / 100) \<noteq> 0
           \<and> getPwlFactor (getDiffPSR rule) (iterm_diff_area info) 0 * (1 - r / 100)
               < diff_PSR info)"
  by (simp add: checkPSR_def Let_def)

lemma checkCAR_threshold:
  "fst (checkCAR rule info verbose report) \<longleftrightarrow>
     (if getCAR rule \<noteq> 0 then getCAR rule < CAR info
      else getPwlFactor (getDiffCAR rule) (iterm_diff_area info) 0 \<noteq> 0
           \<and> getPwlFactor (getDiffCAR rule) (iterm_diff_area info) 0 < diff_CAR info)"
  by (simp add: checkCAR_def Let_def)

lemma checkCSR_threshold:
  "fst (checkCSR rule info verbose report) \<longleftrightarrow>
     (if getCSR rule \<noteq> 0 then getCSR rule < CSR info
      else getPwlFactor (getDiffCSR rule) (iterm_diff_area info) 0 \<noteq> 0
           \<and> getPwlFactor (getDiffCSR rule) (iterm_diff_area info) 0 < diff_CSR info)"
  by (simp add: checkCSR_def Let_def)

text \<open>
  C3, amended. The \<open>PAR\<close> check and the \<open>PSR\<close> check at ratio margin \<open>r\<close> compare against
  the fixed threshold times \<open>1 - r / 100\<close> when that is not 0, and otherwise against the
  PWL threshold times \<open>1 - r / 100\<close> when that is not 0: the margin scales the fixed and
  the PWL thresholds alike. The \<open>CAR\<close> check and the \<open>CSR\<close> check compare against their
  thresholds as they are, whatever the margin. So, raising the margin from 0 to \<open>r\<close>,
  \<open>0 < r < 100\<close>, with thresholds that are not negative: every record that violated the
  \<open>PAR\<close> check or the \<open>PSR\<close> check at margin 0, against a fixed or a PWL threshold,
  still violates it at margin \<open>r\<close>, and every record that had a violation at margin 0
  has one at margin \<open>r\<close>.
\<close>

theorem ratio_margin_monotone:
  "(fst (fst (checkPAR r rule info verbose report)) \<longleftrightarrow>
      (if getPAR rule * (1 - r / 100) \<noteq> 0 then getPAR rule * (1 - r / 100) < PAR info
       else getPwlFactor (getDiffPAR rule) (iterm_diff_area info) 0 * (1 - r / 100) \<noteq> 0
            \<and> getPwlFactor (getDiffPAR rule) (iterm_diff_area info) 0 * (1 - r / 100)
                < diff_PAR info))
   \<and> (fst (fst (checkPSR r rule info verbose report)) \<longleftrightarrow>
      (if getPSR rule * (1 - r / 100) \<noteq> 0 then getPSR rule * (1 - r / 100) < PSR info
       else getPwlFactor (getDiffPSR rule) (iterm_diff_area info) 0 * (1 - r / 100) \<noteq> 0
            \<and> getPwlFactor (getDiffPSR rule) (iterm_diff_area info) 0 * (1 - r / 100)
                < diff_PSR info))
   \<and> (fst (checkCAR rule info verbose report) \<longleftrightarrow>
      (if getCAR rule \<noteq> 0 then getCAR rule < CAR info
       else getPwlFactor (getDiffCAR rule) (iterm_diff_area info) 0 \<noteq> 0
            \<and> getPwlFactor (getDiffCAR rule) (iterm_diff_area info) 0 < diff_CAR info))
   \<and> (fst (checkCSR rule info verbose report) \<longleftrightarrow>
      (if getCSR rule \<noteq> 0 then getCSR rule < CSR info
       else getPwlFactor (getDiffCSR rule) (iterm_diff_area info) 0 \<noteq> 0
            \<and> getPwlFactor (getDiffCSR rule) (iterm_diff_area info) 0 < diff_CSR info))
   \<and> (0 < r \<and> r < 100 \<and> 0 \<le> getPAR rule \<and> 0 \<le> getPSR rule
        \<and> 0 \<le> getPwlFactor (getDiffPAR rule) (iterm_diff_area info) 0
        \<and> 0 \<le> getPwlFactor (getDiffPSR rule) (iterm_diff_area info) 0 \<longrightarrow>
        (fst (fst (checkPAR 0 rule info False False))
            \<longrightarrow> fst (fst (checkPAR r rule info False False)))
      \<and> (fst (fst (checkPSR 0 rule info False False))
            \<longrightarrow> fst (fst (checkPSR r rule info False False)))
      \<and> (node_has_violation 0 tech_layer rule info
            \<longrightarrow> node_has_violation r tech_layer rule info))"
proof (intro conjI)
  show "0 < r \<and> r < 100 \<and> 0 \<le> getPAR rule \<and> 0 \<le> getPSR rule
        \<and> 0 \<le> getPwlFactor (getDiffPAR rule) (iterm_diff_area info) 0
        \<and> 0 \<le> getPwlFactor (getDiffPSR rule) (iterm_diff_area info) 0 \<longrightarrow>
        (fst (fst (checkPAR 0 rule info False False))
            \<longrightarrow> fst (fst (checkPAR r rule info False False)))
      \<and> (fst (fst (checkPSR 0 rule info False False))
            \<longrightarrow> fst (fst (checkPSR r rule info False False)))
      \<and> (node_has_violation 0 tech_layer rule info
            \<longrightarrow> node_has_violation r tech_layer rule info)"
  proof
    assume a: "0 < r \<and> r < 100 \<and> 0 \<le> getPAR rule \<and> 0 \<le> getPSR rule
        \<and> 0 \<le> getPwlFactor (getDiffPAR rule) (iterm_diff_area info) 0
        \<and> 0 \<le> getPwlFactor (getDiffPSR rule) (iterm_diff_area info) 0"
    have p: "fst (fst (checkPAR 0 rule info False False))
               \<Longrightarrow> fst (fst (checkPAR r rule info False False))"
      using checkPAR_margin_mono[of r rule info False False False False] a by blast
    have q: "fst (fst (checkPSR 0 rule info False False))
               \<Longrightarrow> fst (fst (checkPSR r rule info False False))"
      using checkPSR_margin_mono[of r rule info False False False False] a by blast
    show "(fst (fst (checkPAR 0 rule info False False))
            \<longrightarrow> fst (fst (checkPAR r rule info False False)))
      \<and> (fst (fst (checkPSR 0 rule info False False))
            \<longrightarrow> fst (fst (checkPSR r rule info False False)))
      \<and> (node_has_violation 0 tech_layer rule info
            \<longrightarrow> node_has_violation r tech_layer rule info)"
      using p q unfolding node_has_violation_def by auto
  qed
qed (rule checkPAR_threshold checkPSR_threshold checkCAR_threshold checkCSR_threshold)+

theorem ratio_margin_monotone_witness:
  "fst (fst (checkPAR 20 (toy_rule\<lparr>getPAR := 3 / 5\<rparr>) ((toy_info 10 20 0 [])\<lparr>PAR := 1 / 2\<rparr>)
              False False))
   \<and> \<not> fst (fst (checkPAR 0 (toy_rule\<lparr>getPAR := 3 / 5\<rparr>) ((toy_info 10 20 0 [])\<lparr>PAR := 1 / 2\<rparr>)
              False False))
   \<and> \<not> fst (checkCAR (toy_rule\<lparr>getCAR := 3 / 5\<rparr>) ((toy_info 10 20 0 [])\<lparr>CAR := 1 / 2\<rparr>)
              False False)
   \<and> fst (fst (checkPAR 20 toy_rule ((toy_info 40 20 0 [])\<lparr>PAR := 2\<rparr>) False False))
   \<and> node_has_violation 20 toy_M1 toy_rule ((toy_info 40 20 0 [])\<lparr>PAR := 2\<rparr>)"
proof -
  have s6: "fst (fst (checkPAR 20 (toy_rule\<lparr>getPAR := 3 / 5\<rparr>)
                   ((toy_info 10 20 0 [])\<lparr>PAR := 1 / 2\<rparr>) False False))"
    using ratio_margin_monotone[of 20 "toy_rule\<lparr>getPAR := 3 / 5\<rparr>"
            "(toy_info 10 20 0 [])\<lparr>PAR := 1 / 2\<rparr>" False False, THEN conjunct1]
    by simp
  have s1: "\<not> fst (fst (checkPAR 0 (toy_rule\<lparr>getPAR := 3 / 5\<rparr>)
                   ((toy_info 10 20 0 [])\<lparr>PAR := 1 / 2\<rparr>) False False))"
    using ratio_margin_monotone[of 0 "toy_rule\<lparr>getPAR := 3 / 5\<rparr>"
            "(toy_info 10 20 0 [])\<lparr>PAR := 1 / 2\<rparr>" False False, THEN conjunct1]
    by simp
  have c: "\<not> fst (checkCAR (toy_rule\<lparr>getCAR := 3 / 5\<rparr>) ((toy_info 10 20 0 [])\<lparr>CAR := 1 / 2\<rparr>)
              False False)"
    using ratio_margin_monotone[of 20 "toy_rule\<lparr>getCAR := 3 / 5\<rparr>"
            "(toy_info 10 20 0 [])\<lparr>CAR := 1 / 2\<rparr>" False False,
            THEN conjunct2, THEN conjunct2, THEN conjunct1]
    by simp
  have v: "fst (fst (checkPAR 0 toy_rule ((toy_info 40 20 0 [])\<lparr>PAR := 2\<rparr>) False False))"
    by (simp add: checkPAR_def toy_rule_facts Let_def)
  then have n: "node_has_violation 0 toy_M1 toy_rule ((toy_info 40 20 0 [])\<lparr>PAR := 2\<rparr>)"
    by (simp add: node_has_violation_def)
  have m: "fst (fst (checkPAR 20 toy_rule ((toy_info 40 20 0 [])\<lparr>PAR := 2\<rparr>) False False))
           \<and> node_has_violation 20 toy_M1 toy_rule ((toy_info 40 20 0 [])\<lparr>PAR := 2\<rparr>)"
    using ratio_margin_monotone[of 20 toy_rule "(toy_info 40 20 0 [])\<lparr>PAR := 2\<rparr>" False False
            toy_M1, THEN conjunct2, THEN conjunct2, THEN conjunct2, THEN conjunct2] v n
    by (simp add: toy_rule_facts)
  show ?thesis using s6 s1 c m by simp
qed

section \<open>The stored records\<close>


lemma fold_max_ge: "b \<le> fold (\<lambda>a m. max m a) xs (b::real)"
proof (induction xs arbitrary: b)
  case Nil
  then show ?case by simp
next
  case (Cons a xs)
  have "b \<le> max b a" by simp
  also have "\<dots> \<le> fold (\<lambda>a m. max m a) xs (max b a)" by (rule Cons.IH)
  finally show ?case by simp
qed

lemma gateArea_nonneg: "0 \<le> gateArea m"
  by (simp add: gateArea_def fold_max_ge split: option.split)

lemma diffArea_nonneg: "0 \<le> diffArea m"
  by (simp add: diffArea_def fold_max_ge)

lemma pin_area_nonneg: "0 \<le> pin_gate_area g" "0 \<le> pin_diff_area g"
  by (simp_all add: pin_gate_area_def pin_diff_area_def gateArea_nonneg diffArea_nonneg split: PinType.split)

lemma node_info_gates_fields:
  "iterm_gate_area (node_info_gates gs i0) = iterm_gate_area i0 + sum_list (map pin_gate_area gs)"
  "iterm_diff_area (node_info_gates gs i0) = iterm_diff_area i0 + sum_list (map pin_diff_area gs)"
  "area (node_info_gates gs i0) = area i0"
  "side_area (node_info_gates gs i0) = side_area i0"
  "PAR (node_info_gates gs i0) = PAR i0" "PSR (node_info_gates gs i0) = PSR i0"
  "diff_PAR (node_info_gates gs i0) = diff_PAR i0" "diff_PSR (node_info_gates gs i0) = diff_PSR i0"
  "CAR (node_info_gates gs i0) = CAR i0" "CSR (node_info_gates gs i0) = CSR i0"
  "diff_CAR (node_info_gates gs i0) = diff_CAR i0" "diff_CSR (node_info_gates gs i0) = diff_CSR i0"
  unfolding node_info_gates_def
  by (induction gs arbitrary: i0; simp add: pin_gate_area_def pin_diff_area_def split: PinType.split)+

lemma node_info_fields:
  "iterm_gate_area (node_info ga gp dbu L node) = sum_list (map pin_gate_area (gates node))"
  "iterm_diff_area (node_info ga gp dbu L node) = sum_list (map pin_diff_area (gates node))"
  "PAR (node_info ga gp dbu L node) = 0" "PSR (node_info ga gp dbu L node) = 0"
  "diff_PAR (node_info ga gp dbu L node) = 0" "diff_PSR (node_info ga gp dbu L node) = 0"
  "CAR (node_info ga gp dbu L node) = 0" "CSR (node_info ga gp dbu L node) = 0"
  "diff_CAR (node_info ga gp dbu L node) = 0" "diff_CSR (node_info ga gp dbu L node) = 0"
  "area (node_info ga gp dbu L node) = dbuToMicrons dbu (dbuToMicrons dbu (ga (pol node)))"
  "side_area (node_info ga gp dbu L node) =
     (if getRoutingLevel L \<noteq> 0
      then dbuToMicrons dbu (gp (pol node) * dbuToMicrons dbu (real (getThickness L))) else 0)"
  by (simp_all add: node_info_def Let_def node_info_gates_fields InfoType_init_def)

lemma sum_list_nonneg_ge:
  assumes "\<forall>x \<in> set xs. 0 \<le> f x" and "g \<in> set xs"
  shows "f g \<le> sum_list (map f xs :: real list)"
  using assms
proof (induction xs)
  case Nil
  then show ?case by simp
next
  case (Cons a xs)
  have nn: "0 \<le> sum_list (map f xs)" using Cons.prems(1) by (intro sum_list_nonneg) auto
  show ?case
  proof (cases "g = a")
    case True
    then show ?thesis using nn by simp
  next
    case False
    then have "f g \<le> sum_list (map f xs)" using Cons by simp
    moreover have "0 \<le> f a" using Cons.prems(1) by simp
    ultimately show ?thesis by simp
  qed
qed

lemma node_info_gate_area_pos:
  assumes "gate \<in> set (gates node)" and "valid_gate_named n gate"
  shows "0 < iterm_gate_area (node_info ga gp dbu L node)"
proof -
  have "0 < pin_gate_area gate"
    using assms(2) by (auto simp: valid_gate_named_def pin_gate_area_def isValidGate_def split: PinType.splits)
  moreover have "pin_gate_area gate \<le> sum_list (map pin_gate_area (gates node))"
    by (rule sum_list_nonneg_ge) (use assms(1) pin_area_nonneg in auto)
  ultimately show ?thesis by (simp add: node_info_fields)
qed

lemma node_info_diff_area_nonneg: "0 \<le> iterm_diff_area (node_info ga gp dbu L node)"
proof -
  have "0 \<le> sum_list (map pin_diff_area (gates node))"
    by (intro sum_list_nonneg) (auto simp: pin_area_nonneg)
  then show ?thesis by (simp add: node_info_fields)
qed

lemma store_info_inv:
  assumes "gate_area_inv infos"
    and "\<And>n. valid_gate_named n gate \<Longrightarrow> 0 < iterm_gate_area info \<and> 0 \<le> iterm_diff_area info"
  shows "gate_area_inv (store_info L info gate infos)"
proof (cases gate)
  case (BTermPin n)
  then show ?thesis using assms(1) by (simp add: store_info_def)
next
  case (ITermPin n iterm)
  show ?thesis
  proof (cases "isValidGate (getMTerm iterm)")
    case False
    then show ?thesis using assms(1) ITermPin by (simp add: store_info_def)
  next
    case True
    then have "valid_gate_named n gate" using ITermPin by (simp add: valid_gate_named_def)
    then have i: "0 < iterm_gate_area info \<and> 0 \<le> iterm_diff_area info" by (rule assms(2))
    show ?thesis
      using assms(1) i ITermPin True
      unfolding gate_area_inv_def store_info_def
      by (auto simp: InfoType_add_def split: option.splits if_splits)
  qed
qed

lemma fold_store_info_inv:
  assumes "gate_area_inv infos"
    and "\<And>gate n. gate \<in> set gs \<Longrightarrow> valid_gate_named n gate
           \<Longrightarrow> 0 < iterm_gate_area info \<and> 0 \<le> iterm_diff_area info"
  shows "gate_area_inv (fold (store_info L info) gs infos)"
  using assms
proof (induction gs arbitrary: infos)
  case Nil
  then show ?case by simp
next
  case (Cons g gs)
  have "gate_area_inv (store_info L info g infos)"
    by (rule store_info_inv[OF Cons.prems(1)]) (use Cons.prems(2) in auto)
  then have "gate_area_inv (fold (store_info L info) gs (store_info L info g infos))"
    by (rule Cons.IH) (use Cons.prems(2) in auto)
  then show ?case by simp
qed

lemma calculateAreas_node_inv:
  assumes "gate_area_inv infos"
  shows "gate_area_inv (calculateAreas_node ga gp dbu L node infos)"
  unfolding calculateAreas_node_def Let_def
  using assms
  by (auto intro!: fold_store_info_inv node_info_gate_area_pos node_info_diff_area_nonneg)

lemma fold_nodes_inv:
  assumes "gate_area_inv infos"
  shows "gate_area_inv (fold (calculateAreas_node ga gp dbu L) nodes infos)"
  using assms by (induction nodes arbitrary: infos) (simp_all add: calculateAreas_node_inv)

lemma calculateAreas_inv:
  assumes "gate_area_inv infos"
  shows "gate_area_inv (calculateAreas ga gp dbu node_layers nbl infos)"
  unfolding calculateAreas_def
  using assms by (induction node_layers arbitrary: infos) (simp_all add: fold_nodes_inv)

text \<open>
  C10, as stated, fails for the second divisor: with a plus-diff factor of \<open>-2\<close>, a stored
  record of gate area 20 and diffusion area 10 has
  \<open>iterm_gate_area + plus_diff_factor * iterm_diff_area = 0\<close>, and its diffusion area is
  not 0, so \<open>calculateWirePar\<close> divides by it.
\<close>

theorem plus_diff_divisor_counterexample:
  "map_option iterm_gate_area (toy_protected_records ''u1/A'' toy_N1) = Some 20
   \<and> map_option iterm_diff_area (toy_protected_records ''u1/A'' toy_N1) = Some 10
   \<and> plus_diff_factor (layer_info_at toy_negative_layer_info toy_N1) = - 2
   \<and> map_option (diff_divisor (layer_info_at toy_negative_layer_info toy_N1))
        (toy_protected_records ''u1/A'' toy_N1) = Some 0"
  by (simp add: toy_protected_records_def toy_protected_island_def toy_N1_def
        toy_negative_layer_info_def calculateAreas_def calculateAreas_node_def is_iterm_def
        store_info_def node_info_def node_info_gates_def isValidGate_def gateArea_def
        diffArea_def dbuToMicrons_def InfoType_init_def toy_area_def toy_perimeter_def
        initAntennaRules_stores layer_info_at_def initAntennaRules_layer_def toy_rule_def
        toy_M1_def diff_divisor_def Let_def)

text \<open>
  C10, amended. Every record that \<open>calculateAreas\<close> stores in the per-gate map has
  \<open>iterm_gate_area > 0\<close>: a record is stored only under a pin that passes
  \<open>isValidGate\<close>, and its gate area is the sum over the pins of its island, that pin
  among them. So the divisions by \<open>iterm_gate_area\<close> never divide by zero. The
  diffusion area of a record is not negative, so with a \<open>plus_diff_factor\<close> that is not
  negative the divisor \<open>iterm_gate_area + plus_diff_factor * iterm_diff_area\<close> is
  positive too, also after the diode loop has added to the diffusion area.
\<close>

theorem stored_gate_area_positive:
  assumes "calculateAreas ga gp dbu node_layers nbl (\<lambda>g. Map.empty) gate tech_layer = Some info"
    and "0 \<le> pdf" and "0 \<le> extra"
  shows "0 < iterm_gate_area info \<and> 0 \<le> iterm_diff_area info
       \<and> 0 < iterm_gate_area info + pdf * (iterm_diff_area info + extra)"
proof -
  have "gate_area_inv (\<lambda>g. Map.empty)" by (simp add: gate_area_inv_def)
  then have "gate_area_inv (calculateAreas ga gp dbu node_layers nbl (\<lambda>g. Map.empty))"
    by (rule calculateAreas_inv)
  then have a: "0 < iterm_gate_area info" "0 \<le> iterm_diff_area info"
    using assms(1) by (auto simp: gate_area_inv_def)
  have "0 \<le> pdf * (iterm_diff_area info + extra)" using a(2) assms(2,3) by simp
  then show ?thesis using a by simp
qed

lemma toy_two_islands_record:
  "calculateAreas toy_area toy_perimeter 1 [toy_M1] toy_two_islands (\<lambda>g. Map.empty) ''u1/A'' toy_M1
     = Some ((toy_info 40 20 0 [toy_iterm ''u1/A''])\<lparr>side_area := 84\<rparr>)"
  by (simp add: calculateAreas_def calculateAreas_node_def toy_two_islands_def toy_island_def
        is_iterm_def store_info_def node_info_def node_info_gates_def toy_iterm_def
        toy_mterm_def isValidGate_def gateArea_def diffArea_def dbuToMicrons_def
        InfoType_add_def InfoType_init_def toy_info_def toy_area_def toy_perimeter_def
        toy_layer_facts Let_def)

theorem stored_gate_area_positive_witness:
  "0 < iterm_gate_area ((toy_info 40 20 0 [toy_iterm ''u1/A''])\<lparr>side_area := 84\<rparr>)
   \<and> 0 < iterm_gate_area ((toy_info 40 20 0 [toy_iterm ''u1/A''])\<lparr>side_area := 84\<rparr>)
         + 2 * (iterm_diff_area ((toy_info 40 20 0 [toy_iterm ''u1/A''])\<lparr>side_area := 84\<rparr>) + 10)"
  using stored_gate_area_positive[OF toy_two_islands_record, of 2 10] by simp



lemma store_info_other:
  assumes "L' \<noteq> L \<or> \<not> valid_gate_named g gate"
  shows "store_info L info gate infos g L' = infos g L'"
  using assms
  by (auto simp: store_info_def valid_gate_named_def split: PinType.splits option.splits)

lemma store_info_hit:
  assumes "valid_gate_named g gate"
  shows "store_info L info gate infos g L = Some (merge_info (infos g L) info)"
  using assms
  by (auto simp: store_info_def valid_gate_named_def merge_info_def split: PinType.splits option.splits)

lemma valid_gate_named_name: "valid_gate_named g gate \<Longrightarrow> pin_name gate = g"
  by (auto simp: valid_gate_named_def pin_name_def split: PinType.splits)

lemma fold_store_info_other:
  assumes "L' \<noteq> L \<or> \<not> list_ex (valid_gate_named g) gs"
  shows "fold (store_info L info) gs infos g L' = infos g L'"
  using assms
proof (induction gs arbitrary: infos)
  case Nil
  then show ?case by simp
next
  case (Cons x xs)
  have "fold (store_info L info) xs (store_info L info x infos) g L'
          = store_info L info x infos g L'"
    by (rule Cons.IH) (use Cons.prems in auto)
  also have "\<dots> = infos g L'"
    by (rule store_info_other) (use Cons.prems in auto)
  finally show ?case by simp
qed

lemma fold_store_info_hit:
  assumes "distinct (map pin_name gs)" and "list_ex (valid_gate_named g) gs"
  shows "fold (store_info L info) gs infos g L = Some (merge_info (infos g L) info)"
  using assms
proof (induction gs arbitrary: infos)
  case Nil
  then show ?case by simp
next
  case (Cons x xs)
  show ?case
  proof (cases "valid_gate_named g x")
    case True
    then have "pin_name x = g" by (rule valid_gate_named_name)
    then have "g \<notin> pin_name ` set xs" using Cons.prems(1) by auto
    then have "\<not> list_ex (valid_gate_named g) xs"
      by (auto simp: list_ex_iff dest: valid_gate_named_name)
    then have "fold (store_info L info) xs (store_info L info x infos) g L
                 = store_info L info x infos g L"
      by (intro fold_store_info_other) simp
    then show ?thesis using True by (simp add: store_info_hit)
  next
    case False
    then have ex: "list_ex (valid_gate_named g) xs" using Cons.prems(2) by simp
    have d: "distinct (map pin_name xs)" using Cons.prems(1) by simp
    have "store_info L info x infos g L = infos g L"
      by (rule store_info_other) (use False in simp)
    then show ?thesis using Cons.IH[OF d ex, of "store_info L info x infos"] by simp
  qed
qed

lemma valid_gate_named_is_iterm: "valid_gate_named g gate \<Longrightarrow> is_iterm gate"
  by (auto simp: valid_gate_named_def is_iterm_def split: PinType.splits)

lemma calculateAreas_node_hit:
  assumes "distinct (map pin_name (gates node))" and "carries g node"
  shows "calculateAreas_node ga gp dbu L node infos g L
           = Some (merge_info (infos g L) (node_info ga gp dbu L node))"
proof -
  have ex: "list_ex (valid_gate_named g) (gates node)" using assms(2) by (simp add: carries_def)
  then obtain gate where "gate \<in> set (gates node)" "valid_gate_named g gate"
    by (auto simp: list_ex_iff)
  then have "filter is_iterm (gates node) \<noteq> []"
    by (auto simp: filter_empty_conv dest: valid_gate_named_is_iterm)
  then show ?thesis
    using fold_store_info_hit[OF assms(1) ex]
    by (simp add: calculateAreas_node_def Let_def)
qed

lemma calculateAreas_node_miss:
  assumes "L' \<noteq> L \<or> \<not> carries g node"
  shows "calculateAreas_node ga gp dbu L node infos g L' = infos g L'"
proof -
  have "L' \<noteq> L \<or> \<not> list_ex (valid_gate_named g) (gates node)"
    using assms by (auto simp: carries_def)
  then have "fold (store_info L (node_info ga gp dbu L node)) (gates node) infos g L' = infos g L'"
    by (rule fold_store_info_other)
  then show ?thesis
    by (simp add: calculateAreas_node_def Let_def)
qed

lemma fold_nodes_other:
  assumes "L' \<noteq> L"
  shows "fold (calculateAreas_node ga gp dbu L) nodes infos g L' = infos g L'"
proof (induction nodes arbitrary: infos)
  case Nil
  then show ?case by simp
next
  case (Cons n ns)
  have "fold (calculateAreas_node ga gp dbu L) ns (calculateAreas_node ga gp dbu L n infos) g L'
          = calculateAreas_node ga gp dbu L n infos g L'"
    by (rule Cons.IH)
  also have "\<dots> = infos g L'"
    by (rule calculateAreas_node_miss) (use assms in simp)
  finally show ?case by simp
qed

lemma fold_nodes_at:
  assumes "\<forall>node \<in> set nodes. distinct (map pin_name (gates node))"
  shows "fold (calculateAreas_node ga gp dbu L) nodes infos g L =
           merge_nodes (infos g L) (map (node_info ga gp dbu L) (filter (carries g) nodes))"
  using assms
proof (induction nodes arbitrary: infos)
  case Nil
  then show ?case by simp
next
  case (Cons n ns)
  have d: "distinct (map pin_name (gates n))" using Cons.prems by simp
  have r: "\<forall>node \<in> set ns. distinct (map pin_name (gates node))" using Cons.prems by simp
  have step: "fold (calculateAreas_node ga gp dbu L) (n # ns) infos g L
          = merge_nodes (calculateAreas_node ga gp dbu L n infos g L)
              (map (node_info ga gp dbu L) (filter (carries g) ns))"
    using Cons.IH[OF r, of "calculateAreas_node ga gp dbu L n infos"] by simp
  show ?case
  proof (cases "carries g n")
    case True
    show ?thesis
      unfolding step calculateAreas_node_hit[OF d True] using True by simp
  next
    case False
    then have "calculateAreas_node ga gp dbu L n infos g L = infos g L"
      by (intro calculateAreas_node_miss) simp
    then show ?thesis unfolding step using False by simp
  qed
qed

lemma calculateAreas_other:
  assumes "L \<notin> set node_layers"
  shows "calculateAreas ga gp dbu node_layers nbl infos g L = infos g L"
  using assms unfolding calculateAreas_def
proof (induction node_layers arbitrary: infos)
  case Nil
  then show ?case by simp
next
  case (Cons l ls)
  have "fold (\<lambda>tech_layer. fold (calculateAreas_node ga gp dbu tech_layer) (nbl tech_layer)) ls
          (fold (calculateAreas_node ga gp dbu l) (nbl l) infos) g L
        = fold (calculateAreas_node ga gp dbu l) (nbl l) infos g L"
    by (rule Cons.IH) (use Cons.prems in simp)
  also have "\<dots> = infos g L"
    by (rule fold_nodes_other) (use Cons.prems in auto)
  finally show ?case by simp
qed

lemma calculateAreas_at:
  assumes "\<forall>l \<in> set node_layers. \<forall>node \<in> set (nbl l). distinct (map pin_name (gates node))"
    and "distinct node_layers" and "L \<in> set node_layers"
  shows "calculateAreas ga gp dbu node_layers nbl infos g L =
           merge_nodes (infos g L) (map (node_info ga gp dbu L) (filter (carries g) (nbl L)))"
  using assms
proof (induction node_layers arbitrary: infos)
  case Nil
  then show ?case by simp
next
  case (Cons l ls)
  have dl: "\<forall>node \<in> set (nbl l). distinct (map pin_name (gates node))" using Cons.prems(1) by simp
  have r: "\<forall>l \<in> set ls. \<forall>node \<in> set (nbl l). distinct (map pin_name (gates node))"
    using Cons.prems(1) by simp
  have d: "distinct ls" "l \<notin> set ls" using Cons.prems(2) by simp_all
  have unf: "calculateAreas ga gp dbu (l # ls) nbl infos
               = calculateAreas ga gp dbu ls nbl (fold (calculateAreas_node ga gp dbu l) (nbl l) infos)"
    by (simp add: calculateAreas_def)
  show ?case
  proof (cases "L = l")
    case True
    then have "L \<notin> set ls" using d(2) by simp
    then show ?thesis
      unfolding unf using True by (simp add: calculateAreas_other fold_nodes_at[OF dl])
  next
    case False
    then have Lin: "L \<in> set ls" using Cons.prems(3) by simp
    have "fold (calculateAreas_node ga gp dbu l) (nbl l) infos g L = infos g L"
      by (rule fold_nodes_other) (use False in simp)
    then show ?thesis
      unfolding unf using Cons.IH[OF r d(1) Lin] by simp
  qed
qed

lemma merge_nodes_Some:
  assumes "\<forall>ni \<in> set nis. PAR ni = 0 \<and> PSR ni = 0 \<and> diff_PAR ni = 0 \<and> diff_PSR ni = 0"
  shows "merge_nodes (Some x) nis =
           Some (x\<lparr>area := area x + sum_list (map area nis),
                   side_area := side_area x + sum_list (map side_area nis)\<rparr>)"
  using assms
proof (induction nis arbitrary: x)
  case Nil
  then show ?case by simp
next
  case (Cons ni nis)
  have z: "PAR ni = 0" "PSR ni = 0" "diff_PAR ni = 0" "diff_PSR ni = 0" using Cons.prems by simp_all
  have r: "\<forall>ni \<in> set nis. PAR ni = 0 \<and> PSR ni = 0 \<and> diff_PAR ni = 0 \<and> diff_PSR ni = 0"
    using Cons.prems by simp
  show ?case
    by (simp add: Cons.IH[OF r] merge_info_def InfoType_add_def z add.assoc)
qed

lemma calculateAreas_merged_record:
  assumes "\<forall>l \<in> set node_layers. \<forall>node \<in> set (nbl l). distinct (map pin_name (gates node))"
    and "distinct node_layers" and "tech_layer \<in> set node_layers"
  shows "calculateAreas ga gp dbu node_layers nbl (\<lambda>g. Map.empty) gate_name tech_layer =
           (case map (node_info ga gp dbu tech_layer) (filter (carries gate_name) (nbl tech_layer)) of
              [] \<Rightarrow> None
            | first # rest \<Rightarrow>
                Some (first\<lparr>area := area first + sum_list (map area rest),
                            side_area := side_area first + sum_list (map side_area rest)\<rparr>))"
proof -
  have z: "\<forall>ni \<in> set (map (node_info ga gp dbu tech_layer) ns).
             PAR ni = 0 \<and> PSR ni = 0 \<and> diff_PAR ni = 0 \<and> diff_PSR ni = 0" for ns :: "'a GraphNode list"
    by (auto simp: node_info_fields)
  show ?thesis
  proof (cases "map (node_info ga gp dbu tech_layer) (filter (carries gate_name) (nbl tech_layer))")
    case Nil
    then show ?thesis by (simp add: calculateAreas_at[OF assms])
  next
    case (Cons first rest)
    have "set rest \<subseteq> set (map (node_info ga gp dbu tech_layer) (filter (carries gate_name) (nbl tech_layer)))"
      using Cons by auto
    then have "\<forall>ni \<in> set rest. PAR ni = 0 \<and> PSR ni = 0 \<and> diff_PAR ni = 0 \<and> diff_PSR ni = 0"
      using z by blast
    then show ?thesis
      using Cons
      by (simp add: calculateAreas_at[OF assms] merge_info_def merge_nodes_Some)
  qed
qed

lemma toy_pin_facts:
  "pin_name (toy_pin n a) = n"
  "pin_gate_area (toy_pin n a) = max 0 a"
  "pin_diff_area (toy_pin n a) = 0"
  "valid_gate_named g (toy_pin n a) \<longleftrightarrow> n = g \<and> 0 < a"
  by (auto simp: toy_pin_def pin_name_def pin_gate_area_def pin_diff_area_def
        valid_gate_named_def isValidGate_def gateArea_def diffArea_def)

text \<open>
  C7, as stated, fails for the gate and diffusion areas: they are not the values of the
  gate. With an island over the pins \<open>u1/A\<close> (gate area 20) and \<open>u2/A\<close> (gate area 30)
  and a second island over \<open>u1/A\<close> alone, the record of \<open>u1/A\<close> has
  \<open>iterm_gate_area = 50\<close>; with the two islands in the other order it has 20.
\<close>

theorem merged_gate_area_counterexample:
  "pin_gate_area (toy_pin ''u1/A'' 20) = 20
   \<and> map_option iterm_gate_area (toy_mixed_records ''u1/A'' toy_M1) = Some 50
   \<and> map_option iterm_gate_area (toy_mixed_records_rev ''u1/A'' toy_M1) = Some 20"
  by (simp add: toy_mixed_records_def toy_mixed_records_rev_def toy_mixed_islands_def
        toy_mixed_islands_rev_def calculateAreas_def calculateAreas_node_def is_iterm_def
        store_info_def node_info_def node_info_gates_def toy_pin_def isValidGate_def
        gateArea_def diffArea_def dbuToMicrons_def InfoType_init_def InfoType_add_def
        pin_gate_area_def toy_area_def toy_perimeter_def toy_layer_facts Let_def)

text \<open>
  C7, amended. The store maps a gate and a layer to at most one record. After
  \<open>calculateAreas\<close>, the record of a gate on a layer is there exactly when some island
  of the layer carries the gate; it is the record of the first such island with \<open>area\<close>
  and \<open>side_area\<close> summed over all of them. Its \<open>iterm_gate_area\<close> and
  \<open>iterm_diff_area\<close> are those of the first island, the sums of the gate areas and of
  the diffusion areas over all the instance pins of that island: the merge does not add
  to them.
\<close>

theorem calculateAreas_merges:
  assumes "\<forall>l \<in> set node_layers. \<forall>node \<in> set (nbl l). distinct (map pin_name (gates node))"
    and "distinct node_layers" and "tech_layer \<in> set node_layers"
  shows "(case filter (carries gate_name) (nbl tech_layer) of
            [] \<Rightarrow>
              calculateAreas ga gp dbu node_layers nbl (\<lambda>g. Map.empty) gate_name tech_layer = None
          | first # rest \<Rightarrow>
              calculateAreas ga gp dbu node_layers nbl (\<lambda>g. Map.empty) gate_name tech_layer
                = Some ((node_info ga gp dbu tech_layer first)
                          \<lparr>area := sum_list (map (\<lambda>n. area (node_info ga gp dbu tech_layer n))
                                             (first # rest)),
                           side_area :=
                             sum_list (map (\<lambda>n. side_area (node_info ga gp dbu tech_layer n))
                                         (first # rest))\<rparr>)
              \<and> map_option iterm_gate_area
                   (calculateAreas ga gp dbu node_layers nbl (\<lambda>g. Map.empty) gate_name tech_layer)
                 = Some (sum_list (map pin_gate_area (gates first)))
              \<and> map_option iterm_diff_area
                   (calculateAreas ga gp dbu node_layers nbl (\<lambda>g. Map.empty) gate_name tech_layer)
                 = Some (sum_list (map pin_diff_area (gates first))))"
proof (cases "filter (carries gate_name) (nbl tech_layer)")
  case Nil
  then show ?thesis
    using calculateAreas_merged_record[OF assms, of ga gp dbu gate_name] by simp
next
  case (Cons first rest)
  then show ?thesis
    using calculateAreas_merged_record[OF assms, of ga gp dbu gate_name]
    by (simp add: node_info_fields comp_def)
qed

theorem calculateAreas_merges_witness:
  "map_option (\<lambda>r. (area r, side_area r, iterm_gate_area r, iterm_diff_area r))
     (calculateAreas toy_area toy_perimeter 1 [toy_M1] toy_mixed_islands (\<lambda>g. Map.empty)
        ''u1/A'' toy_M1)
   = Some (40, 84, 50, 0)"
  using calculateAreas_merges[where node_layers = "[toy_M1]" and nbl = toy_mixed_islands
          and tech_layer = toy_M1 and gate_name = "''u1/A''" and ga = toy_area
          and gp = toy_perimeter and dbu = 1]
  by (simp add: toy_mixed_islands_def carries_def toy_pin_facts node_info_fields
        dbuToMicrons_def toy_area_def toy_perimeter_def toy_layer_facts)

section \<open>Cumulative ratios\<close>


lemma calculateCAR_loop_other:
  "l \<notin> set stack \<Longrightarrow> calculateCAR_loop stack sumWire sumVia recs l = recs l"
  by (induction stack sumWire sumVia recs rule: calculateCAR_loop.induct)
     (auto simp: Let_def split: option.splits)

lemma lower_same_kind_cong:
  assumes "\<forall>y \<in> set xs. recs' y = recs y"
  shows "lower_same_kind xs recs' l = lower_same_kind xs recs l"
  using assms by (induction xs) auto

lemma lower_same_kind_subset: "set (lower_same_kind xs recs l) \<subseteq> set xs"
  by (induction xs) auto

lemma sum_below_cong:
  assumes "\<forall>y \<in> set xs. recs' y = recs y"
  shows "sum_below f xs recs' l = sum_below f xs recs l"
proof -
  have "map (field_at f recs') (lower_same_kind xs recs l)
          = map (field_at f recs) (lower_same_kind xs recs l)"
  proof (rule map_cong)
    fix y assume "y \<in> set (lower_same_kind xs recs l)"
    then have "y \<in> set xs" using lower_same_kind_subset[of xs recs l] by blast
    then show "field_at f recs' y = field_at f recs y" using assms by (simp add: field_at_def)
  qed simp
  then show ?thesis
    by (simp only: sum_below_def lower_same_kind_cong[OF assms])
qed

lemma sum_below_Cons:
  "sum_below f (x # xs) recs l =
     (if x = l then 0
      else (if same_kind x l then field_at f recs x else 0) + sum_below f xs recs l)"
  by (auto simp: sum_below_def field_at_def)

lemma calculateCAR_loop_at:
  assumes "distinct stack" and "l \<in> set stack" and "recs l = Some r"
  shows "calculateCAR_loop stack sumWire sumVia recs l =
           Some (r\<lparr>CAR := CAR r + (PAR (running l sumWire sumVia) + sum_below PAR stack recs l + PAR r),
                   CSR := CSR r + (PSR (running l sumWire sumVia) + sum_below PSR stack recs l + PSR r),
                   diff_CAR := diff_CAR r + (diff_PAR (running l sumWire sumVia)
                                 + sum_below diff_PAR stack recs l + diff_PAR r),
                   diff_CSR := diff_CSR r + (diff_PSR (running l sumWire sumVia)
                                 + sum_below diff_PSR stack recs l + diff_PSR r)\<rparr>)"
  using assms
proof (induction stack arbitrary: sumWire sumVia recs)
  case Nil
  then show ?case by simp
next
  case (Cons x xs)
  have nx: "x \<notin> set xs" and dxs: "distinct xs" using Cons.prems(1) by simp_all
  show ?case
  proof (cases "x = l")
    case True
    then have "l \<notin> set xs" using nx by simp
    then show ?thesis
      using True Cons.prems(3)
      by (simp add: calculateCAR_loop_other sum_below_Cons running_def Let_def InfoType_add_def)
  next
    case False
    then have lin: "l \<in> set xs" using Cons.prems(2) by simp
    show ?thesis
    proof (cases "recs x")
      case None
      then show ?thesis
        using False Cons.IH[where recs = recs, OF dxs lin Cons.prems(3)]
        by (simp add: sum_below_Cons field_at_def)
    next
      case (Some rx)
      show ?thesis
      proof (cases "getRoutingLevel x = 0")
        case True
        define rx' where "rx' = rx\<lparr>CAR := CAR rx + PAR (InfoType_add sumVia rx),
             CSR := CSR rx + PSR (InfoType_add sumVia rx),
             diff_CAR := diff_CAR rx + diff_PAR (InfoType_add sumVia rx),
             diff_CSR := diff_CSR rx + diff_PSR (InfoType_add sumVia rx)\<rparr>"
        have agree: "\<forall>y \<in> set xs. (recs(x \<mapsto> rx')) y = recs y" using nx by auto
        have rl: "(recs(x \<mapsto> rx')) l = Some r" using False Cons.prems(3) by simp
        have unf: "calculateCAR_loop (x # xs) sumWire sumVia recs
                     = calculateCAR_loop xs sumWire (InfoType_add sumVia rx) (recs(x \<mapsto> rx'))"
          using Some True by (simp add: Let_def rx'_def)
        show ?thesis
          unfolding unf Cons.IH[where recs = "recs(x \<mapsto> rx')", OF dxs lin rl] sum_below_cong[OF agree]
          using False True Some
          by (simp add: sum_below_Cons field_at_def running_def same_kind_def InfoType_add_def)
      next
        case F: False
        define rx' where "rx' = rx\<lparr>CAR := CAR rx + PAR (InfoType_add sumWire rx),
             CSR := CSR rx + PSR (InfoType_add sumWire rx),
             diff_CAR := diff_CAR rx + diff_PAR (InfoType_add sumWire rx),
             diff_CSR := diff_CSR rx + diff_PSR (InfoType_add sumWire rx)\<rparr>"
        have agree: "\<forall>y \<in> set xs. (recs(x \<mapsto> rx')) y = recs y" using nx by auto
        have rl: "(recs(x \<mapsto> rx')) l = Some r" using False Cons.prems(3) by simp
        have unf: "calculateCAR_loop (x # xs) sumWire sumVia recs
                     = calculateCAR_loop xs (InfoType_add sumWire rx) sumVia (recs(x \<mapsto> rx'))"
          using Some F by (simp add: Let_def rx'_def)
        show ?thesis
          unfolding unf Cons.IH[where recs = "recs(x \<mapsto> rx')", OF dxs lin rl] sum_below_cong[OF agree]
          using False F Some
          by (simp add: sum_below_Cons field_at_def running_def same_kind_def InfoType_add_def)
      qed
    qed
  qed
qed


lemma store_info_fresh:
  assumes "fresh_inv infos"
    and "PAR info = 0 \<and> PSR info = 0 \<and> CAR info = 0 \<and> CSR info = 0
         \<and> 0 \<le> area info \<and> 0 \<le> side_area info"
  shows "fresh_inv (store_info L info gate infos)"
  using assms unfolding fresh_inv_def store_info_def
  by (auto simp: InfoType_add_def split: PinType.splits option.splits if_splits)

lemma fold_store_info_fresh:
  assumes "fresh_inv infos"
    and "PAR info = 0 \<and> PSR info = 0 \<and> CAR info = 0 \<and> CSR info = 0
         \<and> 0 \<le> area info \<and> 0 \<le> side_area info"
  shows "fresh_inv (fold (store_info L info) gs infos)"
  using assms(1)
proof (induction gs arbitrary: infos)
  case Nil
  then show ?case by simp
next
  case (Cons g gs)
  have "fresh_inv (store_info L info g infos)"
    by (rule store_info_fresh[OF Cons.prems assms(2)])
  then have "fresh_inv (fold (store_info L info) gs (store_info L info g infos))"
    by (rule Cons.IH)
  then show ?case by simp
qed

lemma node_info_fresh:
  assumes "\<forall>p. 0 \<le> ga p \<and> 0 \<le> gp p" and "0 < dbu"
  shows "PAR (node_info ga gp dbu L node) = 0 \<and> PSR (node_info ga gp dbu L node) = 0
       \<and> CAR (node_info ga gp dbu L node) = 0 \<and> CSR (node_info ga gp dbu L node) = 0
       \<and> 0 \<le> area (node_info ga gp dbu L node) \<and> 0 \<le> side_area (node_info ga gp dbu L node)"
proof -
  have a: "0 \<le> ga (pol node)" "0 \<le> gp (pol node)" using assms(1) by simp_all
  have "0 \<le> gp (pol node) * (real (getThickness L) / dbu)"
    using a(2) assms(2) by simp
  then show ?thesis
    using a assms(2) by (simp add: node_info_fields dbuToMicrons_def)
qed

lemma calculateAreas_fresh:
  assumes "\<forall>p. 0 \<le> ga p \<and> 0 \<le> gp p" and "0 < dbu" and "fresh_inv infos"
  shows "fresh_inv (calculateAreas ga gp dbu node_layers nbl infos)"
proof -
  have node: "fresh_inv (calculateAreas_node ga gp dbu L node i)" if "fresh_inv i" for L node i
    unfolding calculateAreas_node_def Let_def
    using that fold_store_info_fresh[OF that node_info_fresh[OF assms(1,2)]] by simp
  have nodes: "fresh_inv (fold (calculateAreas_node ga gp dbu L) ns i)" if "fresh_inv i" for L ns i
    using that by (induction ns arbitrary: i) (simp_all add: node)
  show ?thesis
    unfolding calculateAreas_def
    using assms(3) by (induction node_layers arbitrary: infos) (simp_all add: nodes)
qed

lemma calculatePAR_at:
  "calculatePAR layer_info infos gate l =
     map_option (\<lambda>r. if getRoutingLevel l = 0 then calculateViaPar layer_info l r
                      else calculateWirePar layer_info l r) (infos gate l)"
  by (simp add: calculatePAR_def split: option.split)

lemma partial_ratios_nonneg:
  assumes "nonneg_factors (layer_info_at layer_info l)"
    and "0 \<le> area r" and "0 \<le> side_area r" and "0 < iterm_gate_area r" and "PSR r = 0"
  shows "0 \<le> PAR (calculateWirePar layer_info l r)" "0 \<le> PSR (calculateWirePar layer_info l r)"
        "0 \<le> PAR (calculateViaPar layer_info l r)" "0 \<le> PSR (calculateViaPar layer_info l r)"
        "CAR (calculateWirePar layer_info l r) = CAR r" "CSR (calculateWirePar layer_info l r) = CSR r"
        "CAR (calculateViaPar layer_info l r) = CAR r" "CSR (calculateViaPar layer_info l r) = CSR r"
  using assms
  by (simp_all add: calculateWirePar_def calculateViaPar_def nonneg_factors_def Let_def)

lemma sum_below_nonneg:
  assumes "\<forall>x r. recs x = Some r \<longrightarrow> 0 \<le> f r"
  shows "0 \<le> sum_below f stack recs l"
  unfolding sum_below_def
  by (intro sum_list_nonneg) (use assms in \<open>auto simp: field_at_def split: option.splits\<close>)

lemma sum_list_pos:
  assumes "\<forall>x \<in> set xs. 0 < (x::real)" and "xs \<noteq> []"
  shows "0 < sum_list xs"
  using assms
proof (induction xs)
  case Nil
  then show ?case by simp
next
  case (Cons a xs)
  have "0 \<le> sum_list xs" by (intro sum_list_nonneg) (use Cons.prems in auto)
  moreover have "0 < a" using Cons.prems by simp
  ultimately show ?case by simp
qed

lemma toy_three_layers_areas:
  "calculateAreas toy_area toy_perimeter 1 toy_tech toy_three_layers (\<lambda>g. Map.empty) ''u1/A''
     = [toy_M1 \<mapsto> (toy_info 40 20 0 [toy_iterm ''u1/A''])\<lparr>side_area := 82\<rparr>,
        toy_V1 \<mapsto> toy_info 2 20 0 [toy_iterm ''u1/A''],
        toy_M2 \<mapsto> (toy_info 60 20 0 [toy_iterm ''u1/A''])\<lparr>side_area := 122\<rparr>]"
  by (simp add: calculateAreas_def calculateAreas_node_def toy_three_layers_def toy_tech_def
        toy_island_def is_iterm_def store_info_def node_info_def node_info_gates_def
        toy_iterm_def toy_mterm_def isValidGate_def gateArea_def diffArea_def
        dbuToMicrons_def InfoType_init_def toy_info_def toy_area_def toy_perimeter_def
        toy_layer_facts Let_def fun_upd_twist)

lemma toy_in_tech: "toy_M1 \<in> set toy_tech" "toy_V1 \<in> set toy_tech" "toy_M2 \<in> set toy_tech"
  by (simp_all add: toy_tech_def)

lemma toy_layers_from_min: "layers_from_min toy_tech = [toy_M1, toy_V1, toy_M2]"
  by (simp add: layers_from_min_def toy_tech_def toy_layer_facts)

lemma toy_nonneg_factors: "nonneg_factors (layer_info_at toy_layer_info l)"
proof (cases "l \<in> set toy_tech")
  case True
  then show ?thesis by (simp add: toy_layer_info_at nonneg_factors_def)
next
  case False
  then show ?thesis
    by (simp add: nonneg_factors_def layer_info_at_def toy_layer_info_def
          initAntennaRules_stores)
qed

text \<open>
  C4, as stated, fails: with one pin under an island on \<open>M1\<close>, on the via layer \<open>V1\<close>
  and on \<open>M2\<close>, the via layer has \<open>CAR = PAR = 0.1\<close> although \<open>M1\<close>, below it, carries
  the gate: the via layers and the metal layers have running sums of their own.
\<close>

theorem cumulative_equality_counterexample:
  "map_option PAR (toy_three_layers_ratios ''u1/A'' toy_V1) = Some (1 / 10)
   \<and> map_option CAR (toy_three_layers_ratios ''u1/A'' toy_V1) = Some (1 / 10)
   \<and> map_option PAR (toy_three_layers_ratios ''u1/A'' toy_M1) = Some 2
   \<and> layers_from_min toy_tech = [toy_M1, toy_V1, toy_M2]"
  by (simp add: toy_three_layers_ratios_def calculateCAR_def calculatePAR_def
        calculateWirePar_def calculateViaPar_def toy_three_layers_areas toy_layers_from_min
        toy_layer_facts toy_rule_facts toy_info_fields toy_layer_info_at toy_in_tech
        InfoType_add_def InfoType_init_def Let_def)

text \<open>
  C4, amended. For every gate and every layer of the walk (the first routing layer and
  the layers above it) that carries a record of the gate, with factors, polygon areas
  and perimeters that are not negative: after \<open>calculatePAR\<close> and \<open>calculateCAR\<close> the
  record's \<open>PAR\<close>, \<open>PSR\<close>, \<open>CAR\<close> and \<open>CSR\<close> are not negative, and \<open>CAR\<close> is \<open>PAR\<close> plus the
  \<open>PAR\<close> of every lower layer of the same kind (metal or via) that carries the gate. So
  \<open>CAR \<ge> PAR\<close>, with equality if the layer is the lowest of its kind that carries the
  gate, and only then when those lower partial ratios are positive.
\<close>

theorem cumulative_ratios:
  assumes poly: "\<forall>p. 0 \<le> ga p \<and> 0 \<le> gp p" and dbu: "0 < dbu"
    and fac: "\<forall>l'. nonneg_factors (layer_info_at layer_info l')"
    and dist: "distinct (layers_from_min tech)" and lin: "l \<in> set (layers_from_min tech)"
    and stored: "calculateAreas ga gp dbu node_layers nbl (\<lambda>g. Map.empty) gate l = Some r0"
  shows "let recs = calculatePAR layer_info
                      (calculateAreas ga gp dbu node_layers nbl (\<lambda>g. Map.empty)) gate;
             lower = lower_same_kind (layers_from_min tech) recs l
         in \<exists>r. calculateCAR tech
                  (calculatePAR layer_info
                     (calculateAreas ga gp dbu node_layers nbl (\<lambda>g. Map.empty))) gate l = Some r
              \<and> 0 \<le> PAR r \<and> 0 \<le> PSR r \<and> 0 \<le> CAR r \<and> 0 \<le> CSR r
              \<and> CAR r = PAR r + sum_list (map (field_at PAR recs) lower)
              \<and> PAR r \<le> CAR r
              \<and> (lower = [] \<longrightarrow> CAR r = PAR r)
              \<and> ((\<forall>x \<in> set lower. 0 < field_at PAR recs x)
                    \<longrightarrow> (CAR r = PAR r \<longleftrightarrow> lower = []))"
proof -
  define infos0 where "infos0 = calculateAreas ga gp dbu node_layers nbl (\<lambda>g. Map.empty)"
  define recs where "recs = calculatePAR layer_info infos0 gate"
  define lower where "lower = lower_same_kind (layers_from_min tech) recs l"
  have fr: "fresh_inv infos0"
    unfolding infos0_def by (rule calculateAreas_fresh[OF poly dbu]) (simp add: fresh_inv_def)
  have gi: "gate_area_inv infos0"
    unfolding infos0_def by (rule calculateAreas_inv) (simp add: gate_area_inv_def)
  have rec_ok: "0 \<le> PAR r \<and> 0 \<le> PSR r \<and> CAR r = 0 \<and> CSR r = 0" if "recs x = Some r" for x r
  proof -
    from that obtain r1 where r1: "infos0 gate x = Some r1"
      and r: "r = (if getRoutingLevel x = 0 then calculateViaPar layer_info x r1
                   else calculateWirePar layer_info x r1)"
      by (auto simp: recs_def calculatePAR_at)
    have f: "PSR r1 = 0" "CAR r1 = 0" "CSR r1 = 0" "0 \<le> area r1" "0 \<le> side_area r1"
      using fr r1 by (auto simp: fresh_inv_def)
    have g: "0 < iterm_gate_area r1" using gi r1 by (auto simp: gate_area_inv_def)
    have nf: "nonneg_factors (layer_info_at layer_info x)" using fac by simp
    show ?thesis
      unfolding r using partial_ratios_nonneg[OF nf f(4,5) g f(1)] f(2,3) by simp
  qed
  have "recs l \<noteq> None" using stored by (simp add: recs_def calculatePAR_at infos0_def)
  then obtain rp where rp: "recs l = Some rp" by auto
  have rp_ok: "0 \<le> PAR rp" "0 \<le> PSR rp" "CAR rp = 0" "CSR rp = 0" using rec_ok[OF rp] by simp_all
  define r where "r = rp\<lparr>CAR := CAR rp + (PAR (running l InfoType_init InfoType_init)
                                + sum_below PAR (layers_from_min tech) recs l + PAR rp),
                   CSR := CSR rp + (PSR (running l InfoType_init InfoType_init)
                                + sum_below PSR (layers_from_min tech) recs l + PSR rp),
                   diff_CAR := diff_CAR rp + (diff_PAR (running l InfoType_init InfoType_init)
                                 + sum_below diff_PAR (layers_from_min tech) recs l + diff_PAR rp),
                   diff_CSR := diff_CSR rp + (diff_PSR (running l InfoType_init InfoType_init)
                                 + sum_below diff_PSR (layers_from_min tech) recs l + diff_PSR rp)\<rparr>"
  have res: "calculateCAR tech (calculatePAR layer_info infos0) gate l = Some r"
    unfolding calculateCAR_def r_def
    using calculateCAR_loop_at[OF dist lin, where recs = recs, OF rp] by (simp add: recs_def)
  have z: "PAR (running l InfoType_init InfoType_init) = 0"
          "PSR (running l InfoType_init InfoType_init) = 0"
    by (simp_all add: running_def InfoType_init_def)
  have sb: "0 \<le> sum_below PAR (layers_from_min tech) recs l"
           "0 \<le> sum_below PSR (layers_from_min tech) recs l"
    by (rule sum_below_nonneg, use rec_ok in blast)+
  have car: "CAR r = PAR r + sum_list (map (field_at PAR recs) lower)"
    by (simp add: r_def z rp_ok sum_below_def lower_def)
  have csr: "CSR r = PSR r + sum_below PSR (layers_from_min tech) recs l"
    by (simp add: r_def z rp_ok)
  have par: "PAR r = PAR rp" "PSR r = PSR rp" by (simp_all add: r_def)
  have sl: "0 \<le> sum_list (map (field_at PAR recs) lower)"
    using sb(1) by (simp add: sum_below_def lower_def)
  have iff: "CAR r = PAR r \<longleftrightarrow> lower = []" if "\<forall>x \<in> set lower. 0 < field_at PAR recs x"
  proof
    assume e: "CAR r = PAR r"
    show "lower = []"
    proof (rule ccontr)
      assume "lower \<noteq> []"
      then have "0 < sum_list (map (field_at PAR recs) lower)"
        by (intro sum_list_pos) (use that in auto)
      then show False using e car by simp
    qed
  next
    assume "lower = []"
    then show "CAR r = PAR r" using car by simp
  qed
  have "0 \<le> PAR r \<and> 0 \<le> PSR r \<and> 0 \<le> CAR r \<and> 0 \<le> CSR r
        \<and> CAR r = PAR r + sum_list (map (field_at PAR recs) lower)
        \<and> PAR r \<le> CAR r
        \<and> (lower = [] \<longrightarrow> CAR r = PAR r)
        \<and> ((\<forall>x \<in> set lower. 0 < field_at PAR recs x) \<longrightarrow> (CAR r = PAR r \<longleftrightarrow> lower = []))"
    using car csr par rp_ok sb sl iff by auto
  then show ?thesis
    using res unfolding Let_def infos0_def[symmetric] recs_def[symmetric] lower_def[symmetric]
    by blast
qed

theorem cumulative_ratios_witness:
  "let recs = calculatePAR toy_layer_info
                (calculateAreas toy_area toy_perimeter 1 toy_tech toy_three_layers
                   (\<lambda>g. Map.empty)) ''u1/A'';
       lower = lower_same_kind (layers_from_min toy_tech) recs toy_M2
   in \<exists>r. calculateCAR toy_tech
            (calculatePAR toy_layer_info
               (calculateAreas toy_area toy_perimeter 1 toy_tech toy_three_layers
                  (\<lambda>g. Map.empty))) ''u1/A'' toy_M2 = Some r
        \<and> 0 \<le> PAR r \<and> 0 \<le> PSR r \<and> 0 \<le> CAR r \<and> 0 \<le> CSR r
        \<and> CAR r = PAR r + sum_list (map (field_at PAR recs) lower)
        \<and> PAR r \<le> CAR r
        \<and> (lower = [] \<longrightarrow> CAR r = PAR r)
        \<and> ((\<forall>x \<in> set lower. 0 < field_at PAR recs x) \<longrightarrow> (CAR r = PAR r \<longleftrightarrow> lower = []))"
proof (rule cumulative_ratios)
  show "\<forall>p. 0 \<le> toy_area p \<and> 0 \<le> toy_perimeter p"
    by (simp add: toy_area_def toy_perimeter_def)
  show "0 < (1::real)" by simp
  show "\<forall>l'. nonneg_factors (layer_info_at toy_layer_info l')"
    by (simp add: toy_nonneg_factors)
  show "distinct (layers_from_min toy_tech)"
    by (simp add: toy_layers_from_min toy_layer_facts)
  show "toy_M2 \<in> set (layers_from_min toy_tech)"
    by (simp add: toy_layers_from_min)
  show "calculateAreas toy_area toy_perimeter 1 toy_tech toy_three_layers (\<lambda>g. Map.empty)
          ''u1/A'' toy_M2 = Some ((toy_info 60 20 0 [toy_iterm ''u1/A''])\<lparr>side_area := 122\<rparr>)"
    by (simp add: toy_three_layers_areas)
qed

section \<open>The diode loop\<close>


















section \<open>Counts with and without a diode\<close>

lemma report_record_counts:
  "pin_has_violation (report_record m net v g l rule info st) = pin_has_violation st"
  "pin_violation_count (report_record m net v g l rule info st) = pin_violation_count st"
  "antenna_violations (report_record m net v g l rule info st) = antenna_violations st"
  by (simp_all add: report_record_def Let_def)

lemma repair_record_counts:
  "pin_has_violation (repair_record li m mx net dm l rule info st) = pin_has_violation st"
  "pin_violation_count (repair_record li m mx net dm l rule info st) = pin_violation_count st"
  by (simp_all add: repair_record_def Let_def)

lemma checkInfo_layer_counts:
  "pin_has_violation (checkInfo_layer li m mx net v rp d g l info st)
     = (pin_has_violation st \<or> record_violates m l info)"
  "pin_violation_count (checkInfo_layer li m mx net v rp d g l info st) = pin_violation_count st"
  by (auto simp: checkInfo_layer_def record_violates_def Let_def report_record_counts
        repair_record_counts split: option.splits)

lemma checkInfo_layer_no_diode:
  "antenna_violations (checkInfo_layer li m mx net v rp None g l info st) = antenna_violations st"
  by (auto simp: checkInfo_layer_def Let_def report_record_counts split: option.splits)

lemma fold_layers_counts:
  "pin_has_violation
     (fold (\<lambda>l s. case infos g l of None \<Rightarrow> s
                   | Some info \<Rightarrow> checkInfo_layer li m mx net v rp d g l info s) ls st)
     = (pin_has_violation st \<or> gate_violates m ls infos g)"
  "pin_violation_count
     (fold (\<lambda>l s. case infos g l of None \<Rightarrow> s
                   | Some info \<Rightarrow> checkInfo_layer li m mx net v rp d g l info s) ls st)
     = pin_violation_count st"
  by (induction ls arbitrary: st;
      auto simp: gate_violates_def checkInfo_layer_counts split: option.splits)+

lemma fold_layers_no_diode:
  "antenna_violations
     (fold (\<lambda>l s. case infos g l of None \<Rightarrow> s
                   | Some info \<Rightarrow> checkInfo_layer li m mx net v rp None g l info s) ls st)
     = antenna_violations st"
  by (induction ls arbitrary: st) (auto simp: checkInfo_layer_no_diode split: option.splits)

lemma checkInfo_gate_counts:
  "pin_violation_count (checkInfo_gate li m mx net v rp d ls infos g st)
     = pin_violation_count st + (if gate_violates m ls infos g then 1 else 0)"
  by (simp add: checkInfo_gate_def Let_def fold_layers_counts)

lemma checkInfo_gate_no_diode:
  "antenna_violations (checkInfo_gate li m mx net v rp None ls infos g st) = antenna_violations st"
  by (simp add: checkInfo_gate_def Let_def fold_layers_no_diode)

lemma fold_gates_counts:
  "pin_violation_count (fold (checkInfo_gate li m mx net v rp d ls infos) gs st)
     = pin_violation_count st + length (filter (gate_violates m ls infos) gs)"
  by (induction gs arbitrary: st) (simp_all add: checkInfo_gate_counts)

lemma fold_gates_no_diode:
  "antenna_violations (fold (checkInfo_gate li m mx net v rp None ls infos) gs st)
     = antenna_violations st"
  by (induction gs arbitrary: st) (simp_all add: checkInfo_gate_no_diode)

lemma checkInfo_count:
  "pin_violation_count (checkInfo li mx net v rp d m gs ls infos vs lg)
     = length (filter (gate_violates m ls infos) gs)"
  by (simp add: checkInfo_def Let_def fold_gates_counts)

lemma checkInfo_no_diode:
  "antenna_violations (checkInfo li mx net v rp None m gs ls infos vs lg) = vs"
  by (simp add: checkInfo_def Let_def fold_gates_no_diode)

text \<open>
  C6. For every net and the same inputs, the check with a diode master terminal gives
  the same \<open>netViolationCount\<close> and \<open>pinViolationCount\<close> as the check without one and
  leaves the same stored records; without a diode the violation list is left as it was.
\<close>

theorem diode_mterm_keeps_counts:
  "net_violation_count
     (checkNet ga gp dbu tech li mx gs ls db_net v rp (Some dm) m cs)
   = net_violation_count (checkNet ga gp dbu tech li mx gs ls db_net v rp None m cs)
   \<and> pin_violation_total
     (checkNet ga gp dbu tech li mx gs ls db_net v rp (Some dm) m cs)
   = pin_violation_total (checkNet ga gp dbu tech li mx gs ls db_net v rp None m cs)
   \<and> stored_info (checkNet ga gp dbu tech li mx gs ls db_net v rp (Some dm) m cs)
   = stored_info (checkNet ga gp dbu tech li mx gs ls db_net v rp None m cs)
   \<and> stored_violations (checkNet ga gp dbu tech li mx gs ls db_net v rp None m cs)
   = stored_violations cs"
  by (simp add: checkNet_def Let_def checkInfo_count checkInfo_no_diode)

section \<open>Via adjacency\<close>

text \<open>
  C9 at a via island that touches two islands of the lower layer and two of the upper
  layer: the two upper islands get the via as lower neighbour, and the via island gets
  no lower neighbour and no message, although \<open>findNodesWithIntersection\<close> found both
  lower islands.
\<close>

theorem via_two_lower_islands:
  "findNodesWithIntersection interval_add (fst (buildLayerMaps_nodes toy_via_layout) toy_M1)
     (0, 6) = [0, 1]
   \<and> map low_adj (fst toy_via_graph toy_V1) = [[]]
   \<and> map low_adj (fst toy_via_graph toy_M2) = [[0], [0]]
   \<and> snd toy_via_graph = []"
  by (simp add: toy_via_graph_def toy_via_layout_def toy_tech_def toy_layer_facts
        buildLayerMaps_connect_def buildLayerMaps_nodes_def connect_via_def
        findNodesWithIntersection_def interval_add_def interval_touch_def nodes_at_def
        push_low_adj_at_def push_low_adj_def Let_def)

end
